theory Spec2Isabelle
  imports Main "HOL-Library.Word" "HOL-Library.Sublist"
begin

section \<open>JavaScript values used by the service and the view controller\<close>

text \<open>
  A JavaScript string is a sequence of 16-bit code units. String literals of the source
  are ASCII and are written \<open>js ''...''\<close>.
\<close>

type_synonym code_unit = "16 word"
type_synonym jsstring = "code_unit list"
type_synonym byte = "8 word"

definition js :: "string \<Rightarrow> jsstring" where
  "js s = map of_char s"

text \<open>\<open>s.includes(t)\<close>: \<open>t\<close> occurs in \<open>s\<close> as a contiguous run of code units.\<close>

fun includes_js :: "jsstring \<Rightarrow> jsstring \<Rightarrow> bool" where
  "includes_js [] t = (t = [])"
| "includes_js (c # cs) t = (prefix t (c # cs) \<or> includes_js cs t)"

text \<open>
  A thrown value. \<open>JsError m\<close> is an instance of \<open>Error\<close> (or of a subclass such
  as \<open>TypeError\<close>, \<open>RangeError\<close> or \<open>DOMException\<close>) with message \<open>m\<close>;
  \<open>NonError m\<close> is any other thrown value, for which \<open>instanceof Error\<close> is false,
  with its \<open>message\<close> property when it has one.
\<close>

datatype fault = JsError jsstring | NonError "jsstring option"

text \<open>The result of awaiting a promise of a collaborator: it rejects or it resolves.\<close>

datatype 'a outcome = Throws fault | Returns 'a

text \<open>Truthiness of a value of type \<open>string | null\<close>: \<open>null\<close> and \<open>''\<close> are falsy.\<close>

fun truthy :: "jsstring option \<Rightarrow> bool" where
  "truthy None = False"
| "truthy (Some s) = (s \<noteq> [])"

text \<open>A template literal renders \<open>undefined\<close> as the text \<open>undefined\<close>.\<close>

fun render :: "jsstring option \<Rightarrow> jsstring" where
  "render None = js ''undefined''"
| "render (Some s) = s"


section \<open>Media codec helpers (services/geminiService.ts)\<close>

subsection \<open>\<open>fileToGenerativePart\<close>\<close>

text \<open>
  \<open>base64.match(/^data:(image\/\w+);base64,(.*)$/)\<close>. The pattern has no flags, so
  \<open>\w\<close> is \<open>[A-Za-z0-9_]\<close>, \<open>.\<close> is any code unit but a line terminator, and
  \<open>$\<close> is the end of the input.
\<close>

definition isWordChar :: "code_unit \<Rightarrow> bool" where
  "isWordChar c \<longleftrightarrow>
     (0x30 \<le> c \<and> c \<le> 0x39) \<or> (0x41 \<le> c \<and> c \<le> 0x5A) \<or> c = 0x5F \<or> (0x61 \<le> c \<and> c \<le> 0x7A)"

definition isLineTerminator :: "code_unit \<Rightarrow> bool" where
  "isLineTerminator c \<longleftrightarrow> c = 0x0A \<or> c = 0x0D \<or> c = 0x2028 \<or> c = 0x2029"

fun stripPrefix :: "jsstring \<Rightarrow> jsstring \<Rightarrow> jsstring option" where
  "stripPrefix [] s = Some s"
| "stripPrefix (p # ps) [] = None"
| "stripPrefix (p # ps) (c # cs) = (if p = c then stripPrefix ps cs else None)"

text \<open>
  The matcher, run left to right as the regular expression is: the literal \<open>data:\<close>,
  the literal \<open>image/\<close>, the longest run of word characters (a shorter run would be
  followed by a word character, which is not \<open>;\<close>), which must not be empty, the literal
  \<open>;base64,\<close>, and a rest without line terminators up to the end of the input. The
  result holds the two capture groups \<open>match[1]\<close> and \<open>match[2]\<close>.
\<close>

definition matchDataUrl :: "jsstring \<Rightarrow> (jsstring \<times> jsstring) option" where
  "matchDataUrl s =
     (case stripPrefix (js ''data:'') s of
        None \<Rightarrow> None
      | Some r0 \<Rightarrow>
          (case stripPrefix (js ''image/'') r0 of
             None \<Rightarrow> None
           | Some r1 \<Rightarrow>
               (let w = takeWhile isWordChar r1; r2 = dropWhile isWordChar r1 in
                if w = [] then None
                else
                  (case stripPrefix (js '';base64,'') r2 of
                     None \<Rightarrow> None
                   | Some payload \<Rightarrow>
                       if list_ex isLineTerminator payload then None
                       else Some (js ''image/'' @ w, payload)))))"

record imagePart =
  data :: jsstring
  mimeType :: jsstring

definition fileToGenerativePart :: "jsstring \<Rightarrow> fault + imagePart" where
  "fileToGenerativePart base64 =
     (case matchDataUrl base64 of
        None \<Rightarrow> Inl (JsError (js ''Invalid base64 string format''))
      | Some (m1, m2) \<Rightarrow> Inr \<lparr>data = m2, mimeType = m1\<rparr>)"

text \<open>
  The language of the pattern, stated on its own: \<open>dataUrlPattern s mime payload\<close> says
  that \<open>s\<close> is \<open>data:<mime>;base64,<payload>\<close> with \<open>mime\<close> of the shape
  \<open>image/\w+\<close> and \<open>payload\<close> of the shape \<open>.*\<close>.
\<close>

definition dataUrlPattern :: "jsstring \<Rightarrow> jsstring \<Rightarrow> jsstring \<Rightarrow> bool" where
  "dataUrlPattern s mime payload \<longleftrightarrow>
     (\<exists>w. w \<noteq> [] \<and> (\<forall>c \<in> set w. isWordChar c) \<and> mime = js ''image/'' @ w) \<and>
     (\<forall>c \<in> set payload. \<not> isLineTerminator c) \<and>
     s = js ''data:'' @ mime @ js '';base64,'' @ payload"


subsection \<open>\<open>pcmToWav\<close>\<close>

text \<open>
  A \<open>Uint8Array\<close> is a window of \<open>byteLength\<close> bytes at \<open>byteOffset\<close> into its
  underlying \<open>ArrayBuffer\<close>. \<open>new Uint8Array(len)\<close> and \<open>decode\<close> give an array that
  spans its whole buffer; \<open>subarray\<close> and the three-argument constructor give a
  proper window.
\<close>

record uint8Array =
  buffer :: "byte list"
  byteOffset :: nat
  byteLength :: nat

definition wellFormed :: "uint8Array \<Rightarrow> bool" where
  "wellFormed a \<longleftrightarrow> byteOffset a + byteLength a \<le> length (buffer a)"

definition spansBuffer :: "uint8Array \<Rightarrow> bool" where
  "spansBuffer a \<longleftrightarrow> byteOffset a = 0 \<and> byteLength a = length (buffer a)"

text \<open>
  A \<open>DataView\<close> over a whole \<open>ArrayBuffer\<close> is the list of its bytes. Each setter
  converts its value modulo the width of the field (\<open>ToUint8\<close>, \<open>ToUint16\<close>,
  \<open>ToUint32\<close>), and throws a \<open>RangeError\<close> when the field does not lie inside the view.
\<close>

datatype rangeError = RangeError

definition setUint8 :: "byte list \<Rightarrow> nat \<Rightarrow> int \<Rightarrow> rangeError + byte list" where
  "setUint8 view off v =
     (if off + 1 \<le> length view then Inr (view[off := of_int v]) else Inl RangeError)"

definition setUint16 :: "byte list \<Rightarrow> nat \<Rightarrow> int \<Rightarrow> bool \<Rightarrow> rangeError + byte list" where
  "setUint16 view off v littleEndian =
     (if off + 2 \<le> length view then
        (if littleEndian
         then Inr (view[off := of_int v, off + 1 := of_int (v div 256)])
         else Inr (view[off := of_int (v div 256), off + 1 := of_int v]))
      else Inl RangeError)"

definition setUint32 :: "byte list \<Rightarrow> nat \<Rightarrow> int \<Rightarrow> bool \<Rightarrow> rangeError + byte list" where
  "setUint32 view off v littleEndian =
     (if off + 4 \<le> length view then
        (if littleEndian
         then Inr (view[off := of_int v, off + 1 := of_int (v div 256),
                        off + 2 := of_int (v div 65536), off + 3 := of_int (v div 16777216)])
         else Inr (view[off := of_int (v div 16777216), off + 1 := of_int (v div 65536),
                        off + 2 := of_int (v div 256), off + 3 := of_int v]))
      else Inl RangeError)"

text \<open>\<open>getUint32(off, true)\<close>, used to read a header field back.\<close>

definition getUint32LE :: "byte list \<Rightarrow> nat \<Rightarrow> int" where
  "getUint32LE view off =
     uint (view ! off) + 256 * uint (view ! (off + 1)) + 65536 * uint (view ! (off + 2))
       + 16777216 * uint (view ! (off + 3))"

text \<open>Sequencing of statements that may throw.\<close>

definition andThen :: "'e + 'a \<Rightarrow> ('a \<Rightarrow> 'e + 'b) \<Rightarrow> 'e + 'b" where
  "andThen r f = (case r of Inl e \<Rightarrow> Inl e | Inr v \<Rightarrow> f v)"

text \<open>\<open>writeString\<close>: one \<open>setUint8\<close> per code unit, from \<open>offset\<close> upwards.\<close>

fun writeString :: "byte list \<Rightarrow> nat \<Rightarrow> jsstring \<Rightarrow> rangeError + byte list" where
  "writeString view offset [] = Inr view"
| "writeString view offset (c # cs) =
     andThen (setUint8 view offset (uint c)) (\<lambda>view'. writeString view' (offset + 1) cs)"

text \<open>
  The copy loop \<open>for (i = 0; i < pcmBytes.length; i++) view.setUint8(44 + i, pcmBytes[i])\<close>,
  started at \<open>i\<close> with the bytes from \<open>i\<close> on still to write.
\<close>

fun writePcm :: "byte list \<Rightarrow> nat \<Rightarrow> byte list \<Rightarrow> rangeError + byte list" where
  "writePcm view i [] = Inr view"
| "writePcm view i (b # bs) =
     andThen (setUint8 view (44 + i) (uint b)) (\<lambda>view'. writePcm view' (i + 1) bs)"

text \<open>
  \<open>pcmToWav\<close>. The sample rate is taken to be an integer. The buffer is allocated with
  \<open>44 + pcmData.byteLength\<close> zero bytes, and the allocation is taken to succeed; the loop
  copies \<open>new Uint8Array(pcmData.buffer)\<close>, that is every byte of the underlying buffer.
  The result is the content of the returned \<open>Blob\<close>, or the \<open>RangeError\<close> that
  escapes.
\<close>

definition pcmToWav :: "uint8Array \<Rightarrow> int \<Rightarrow> rangeError + byte list" where
  "pcmToWav pcmData sampleRate =
     (let numChannels = 1;
          bitsPerSample = 16;
          blockAlign = (numChannels * bitsPerSample) div 8;
          byteRate = sampleRate * blockAlign;
          dataSize = byteLength pcmData;
          view = replicate (44 + dataSize) 0
      in
      andThen (writeString view 0 (js ''RIFF'')) (\<lambda>view.
      andThen (setUint32 view 4 (36 + int dataSize) True) (\<lambda>view.
      andThen (writeString view 8 (js ''WAVE'')) (\<lambda>view.
      andThen (writeString view 12 (js ''fmt '')) (\<lambda>view.
      andThen (setUint32 view 16 16 True) (\<lambda>view.
      andThen (setUint16 view 20 1 True) (\<lambda>view.
      andThen (setUint16 view 22 numChannels True) (\<lambda>view.
      andThen (setUint32 view 24 sampleRate True) (\<lambda>view.
      andThen (setUint32 view 28 byteRate True) (\<lambda>view.
      andThen (setUint16 view 32 blockAlign True) (\<lambda>view.
      andThen (setUint16 view 34 bitsPerSample True) (\<lambda>view.
      andThen (writeString view 36 (js ''data'')) (\<lambda>view.
      andThen (setUint32 view 40 (int dataSize) True) (\<lambda>view.
      writePcm view 0 (buffer pcmData)))))))))))))))"

text \<open>The three quantities of a finished stream that the header must agree with.\<close>

definition wavSizes :: "byte list \<Rightarrow> nat \<times> int \<times> int" where
  "wavSizes out = (length out, getUint32LE out 4, getUint32LE out 40)"

text \<open>
  The frame of a write: \<open>view'\<close> has the length of \<open>view\<close> and differs from it at most
  at the offsets from \<open>lo\<close> up to, not including, \<open>hi\<close>.
\<close>

definition sameOutside :: "nat \<Rightarrow> nat \<Rightarrow> byte list \<Rightarrow> byte list \<Rightarrow> bool" where
  "sameOutside lo hi view view' \<longleftrightarrow>
     length view' = length view \<and> (\<forall>j. j < lo \<or> hi \<le> j \<longrightarrow> view' ! j = view ! j)"


section \<open>Generation client (services/geminiService.ts)\<close>

text \<open>
  The remote service and the browser are collaborators: what they answer to the calls of
  an operation is a parameter of the operation. Every operation returns the remote calls
  it issued, in order, next to its result; \<open>Inl\<close> is what the operation throws.
  Each operation is a \<open>try\<close> block, modelled with the fault thrown inside it as its
  \<open>Inl\<close>, and a \<open>catch\<close> block that turns the caught fault into the \<open>Error\<close>
  the caller gets. \<open>console.error\<close> output is not modelled.
\<close>

record blob =
  blobData :: "jsstring option"
  blobMimeType :: "jsstring option"

record part =
  inlineData :: "blob option"
  partText :: "jsstring option"

text \<open>
  What \<open>response.candidates[0].content.parts\<close> evaluates to: a list of parts, or a
  \<open>TypeError\<close> (with the engine's message) when a link of the chain is missing.
\<close>

datatype contentResponse = Unreadable jsstring | Parts "part list"

record imageRequest =
  model :: jsstring
  image :: imagePart
  prompt :: jsstring

datatype aspect = Landscape | Portrait

record videoRequest =
  videoModel :: jsstring
  requestPrompt :: jsstring
  imageBytes :: jsstring
  imageMimeType :: jsstring
  numberOfVideos :: nat
  resolution :: jsstring
  requestAspectRatio :: aspect

datatype remoteCall =
    GenerateContent imageRequest
  | GenerateSpeech jsstring
  | GenerateVideos videoRequest
  | GetVideosOperation
  | FetchVideo jsstring

text \<open>\<open>error instanceof Error && error.message.includes(t)\<close>.\<close>

fun errorMessageIncludes :: "fault \<Rightarrow> jsstring \<Rightarrow> bool" where
  "errorMessageIncludes (JsError message) t = includes_js message t"
| "errorMessageIncludes (NonError m) t = False"

subsection \<open>\<open>generateImage\<close>\<close>

text \<open>The loop over the parts: the first part whose \<open>inlineData\<close> is present.\<close>

fun firstInlineData :: "part list \<Rightarrow> blob option" where
  "firstInlineData [] = None"
| "firstInlineData (p # ps) =
     (case inlineData p of Some b \<Rightarrow> Some b | None \<Rightarrow> firstInlineData ps)"

definition generateImage_try ::
  "jsstring \<Rightarrow> jsstring \<Rightarrow> bool \<Rightarrow> contentResponse outcome
     \<Rightarrow> remoteCall list \<times> (fault + jsstring)" where
  "generateImage_try base64Image userPrompt isEdit answer =
     (case fileToGenerativePart base64Image of
        Inl e \<Rightarrow> ([], Inl e)
      | Inr imgPart \<Rightarrow>
          (let fullPrompt =
                 (if isEdit
                  then userPrompt @ js ''. Apply this edit while preserving the person's core facial features and likeness.''
                  else userPrompt @ js ''. Ensure the person's facial features are preserved from the original image but place them in the described professional setting with appropriate attire. The final image should be a high-quality, realistic headshot.'');
               request = \<lparr>model = js ''gemini-2.5-flash-image'', image = imgPart, prompt = fullPrompt\<rparr>
           in
           (case answer of
              Throws e \<Rightarrow> ([GenerateContent request], Inl e)
            | Returns (Unreadable m) \<Rightarrow> ([GenerateContent request], Inl (JsError m))
            | Returns (Parts parts) \<Rightarrow>
                (case firstInlineData parts of
                   Some b \<Rightarrow>
                     ([GenerateContent request],
                      Inr (js ''data:'' @ render (blobMimeType b) @ js '';base64,'' @ render (blobData b)))
                 | None \<Rightarrow>
                     ([GenerateContent request],
                      Inl (JsError (js ''No image data was found in the API response.'')))))))"

definition imageCatch :: "fault \<Rightarrow> fault" where
  "imageCatch error =
     (if errorMessageIncludes error (js ''API key'')
      then JsError (js ''The API key is invalid or missing. Please check your configuration.'')
      else JsError (js ''Failed to generate the image due to an API error. Please try again later.''))"

definition generateImage ::
  "jsstring \<Rightarrow> jsstring \<Rightarrow> bool \<Rightarrow> contentResponse outcome
     \<Rightarrow> remoteCall list \<times> (fault + jsstring)" where
  "generateImage base64Image userPrompt isEdit answer =
     (case generateImage_try base64Image userPrompt isEdit answer of
        (issued, Inl error) \<Rightarrow> (issued, Inl (imageCatch error))
      | (issued, Inr dataUrl) \<Rightarrow> (issued, Inr dataUrl))"

subsection \<open>\<open>generateSpeech\<close>\<close>

text \<open>
  The browser functions the speech path uses: \<open>atob\<close> (which throws on text that is not
  base64), \<open>URL.createObjectURL\<close> on the bytes of a blob, and the message the engine
  gives a \<open>RangeError\<close> of a \<open>DataView\<close>.
\<close>

record browser =
  atob :: "jsstring \<Rightarrow> fault + jsstring"
  createObjectURL :: "byte list \<Rightarrow> jsstring"
  rangeErrorMessage :: jsstring

text \<open>\<open>decode\<close>: a fresh array of the length of the binary string, one byte per code unit.\<close>

definition decode :: "browser \<Rightarrow> jsstring \<Rightarrow> fault + uint8Array" where
  "decode b base64 =
     (case atob b base64 of
        Inl e \<Rightarrow> Inl e
      | Inr binaryString \<Rightarrow>
          Inr \<lparr>buffer = map ucast binaryString, byteOffset = 0, byteLength = length binaryString\<rparr>)"

text \<open>
  The remote answer is the value of
  \<open>response.candidates?.[0]?.content?.parts?.[0]?.inlineData?.data\<close>.
\<close>

definition generateSpeech_try ::
  "jsstring \<Rightarrow> browser \<Rightarrow> jsstring option outcome \<Rightarrow> remoteCall list \<times> (fault + jsstring)" where
  "generateSpeech_try speechPrompt b answer =
     (case answer of
        Throws e \<Rightarrow> ([GenerateSpeech speechPrompt], Inl e)
      | Returns base64Audio \<Rightarrow>
          (if \<not> truthy base64Audio
           then ([GenerateSpeech speechPrompt],
                 Inl (JsError (js ''No audio data found in the API response.'')))
           else
             (case decode b (render base64Audio) of
                Inl e \<Rightarrow> ([GenerateSpeech speechPrompt], Inl e)
              | Inr pcmData \<Rightarrow>
                  (case pcmToWav pcmData 24000 of
                     Inl RangeError \<Rightarrow>
                       ([GenerateSpeech speechPrompt], Inl (JsError (rangeErrorMessage b)))
                   | Inr wavBlob \<Rightarrow>
                       ([GenerateSpeech speechPrompt], Inr (createObjectURL b wavBlob))))))"

definition speechCatch :: "fault \<Rightarrow> fault" where
  "speechCatch error =
     (if errorMessageIncludes error (js ''API key'')
      then JsError (js ''The API key is invalid or missing. Please check your configuration.'')
      else JsError (js ''Failed to generate audio due to an API error.''))"

definition generateSpeech ::
  "jsstring \<Rightarrow> browser \<Rightarrow> jsstring option outcome \<Rightarrow> remoteCall list \<times> (fault + jsstring)" where
  "generateSpeech speechPrompt b answer =
     (case generateSpeech_try speechPrompt b answer of
        (issued, Inl error) \<Rightarrow> (issued, Inl (speechCatch error))
      | (issued, Inr audioUrl) \<Rightarrow> (issued, Inr audioUrl))"

subsection \<open>\<open>generateVideo\<close>\<close>

record videoOperation =
  isDone :: bool
  videoUri :: "jsstring option"

text \<open>
  A \<open>fetch\<close> response: \<open>ok\<close>, \<open>statusText\<close>, and what reading the body gives, the
  object URL of the blob or the fault of \<open>response.blob()\<close>.
\<close>

record fetchResponse =
  ok :: bool
  statusText :: jsstring
  bodyUrl :: "jsstring outcome"

text \<open>
  The video service: its answer to the submission, its answers to the successive status
  polls, and the answer to the download. The list of poll answers is what the service has
  said so far: a run that has used all of them while the operation is still not done has
  not returned. The constructor of the client, \<open>new GoogleGenAI({ apiKey })\<close>, belongs to
  the service library, which is not among the sources: it throws an \<open>Error\<close> when the
  key is not set, and the message of that \<open>Error\<close> is \<open>keyUnsetMessage\<close>.
\<close>

record videoService =
  keyUnsetMessage :: jsstring
  generateVideos :: "videoOperation outcome"
  getVideosOperation :: "videoOperation outcome list"
  fetch :: "fetchResponse outcome"

text \<open>
  \<open>while (!operation.done) { sleep 10 s; operation = await getVideosOperation(...) }\<close>.
  The result is the polls issued and \<open>None\<close> while the loop has not ended, the fault of
  a poll, or the finished operation.
\<close>

fun pollLoop ::
  "videoOperation \<Rightarrow> videoOperation outcome list
     \<Rightarrow> remoteCall list \<times> (fault + videoOperation) option" where
  "pollLoop operation [] =
     (if isDone operation then ([], Some (Inr operation)) else ([], None))"
| "pollLoop operation (answer # answers) =
     (if isDone operation then ([], Some (Inr operation))
      else
        (case answer of
           Throws e \<Rightarrow> ([GetVideosOperation], Some (Inl e))
         | Returns operation' \<Rightarrow>
             (case pollLoop operation' answers of
                (polls, r) \<Rightarrow> (GetVideosOperation # polls, r))))"

text \<open>
  One run of \<open>generateVideo\<close>: the remote calls issued, the messages \<open>onProgress\<close> was
  invoked with, in order, and the result (\<open>None\<close> while the run is still polling). The
  first statement of the \<open>try\<close> block constructs a fresh client from
  \<open>process.env.API_KEY\<close>, here \<open>apiKey\<close>, and throws when the key is not set.
\<close>

record videoRun =
  calls :: "remoteCall list"
  progress :: "jsstring list"
  outcomeOf :: "(fault + jsstring) option"

definition generateVideo_try ::
  "jsstring \<Rightarrow> jsstring \<Rightarrow> aspect \<Rightarrow> jsstring option \<Rightarrow> videoService \<Rightarrow> videoRun" where
  "generateVideo_try base64Image userPrompt ratio apiKey svc =
     (case apiKey of
        None \<Rightarrow>
          \<lparr>calls = [], progress = [], outcomeOf = Some (Inl (JsError (keyUnsetMessage svc)))\<rparr>
      | Some key \<Rightarrow>
          (case fileToGenerativePart base64Image of
             Inl e \<Rightarrow> \<lparr>calls = [], progress = [], outcomeOf = Some (Inl e)\<rparr>
           | Inr imgPart \<Rightarrow>
               (let p1 = [js ''Initiating video generation...''];
                    request = \<lparr>videoModel = js ''veo-3.1-fast-generate-preview'', requestPrompt = userPrompt,
                               imageBytes = data imgPart, imageMimeType = mimeType imgPart,
                               numberOfVideos = 1, resolution = js ''720p'', requestAspectRatio = ratio\<rparr>;
                    c1 = [GenerateVideos request]
                in
                (case generateVideos svc of
                   Throws e \<Rightarrow> \<lparr>calls = c1, progress = p1, outcomeOf = Some (Inl e)\<rparr>
                 | Returns operation \<Rightarrow>
                     (let p2 = p1 @ [js ''Generation in progress... This may take several minutes.'']
                      in
                      (case pollLoop operation (getVideosOperation svc) of
                         (polls, None) \<Rightarrow> \<lparr>calls = c1 @ polls, progress = p2, outcomeOf = None\<rparr>
                       | (polls, Some (Inl e)) \<Rightarrow>
                           \<lparr>calls = c1 @ polls, progress = p2, outcomeOf = Some (Inl e)\<rparr>
                       | (polls, Some (Inr finished)) \<Rightarrow>
                           (if \<not> truthy (videoUri finished)
                            then \<lparr>calls = c1 @ polls, progress = p2,
                                  outcomeOf = Some (Inl (JsError
                                    (js ''Video generation finished but no video URI was found.'')))\<rparr>
                            else
                              (let downloadLink = render (videoUri finished);
                                   p3 = p2 @ [js ''Downloading generated video...''];
                                   url = downloadLink @ js ''&key='' @ render apiKey;
                                   c3 = c1 @ polls @ [FetchVideo url]
                               in
                               (case fetch svc of
                                  Throws e \<Rightarrow> \<lparr>calls = c3, progress = p3, outcomeOf = Some (Inl e)\<rparr>
                                | Returns response \<Rightarrow>
                                    (if \<not> ok response
                                     then \<lparr>calls = c3, progress = p3,
                                           outcomeOf = Some (Inl (JsError
                                             (js ''Failed to download video: '' @ statusText response)))\<rparr>
                                     else
                                       (case bodyUrl response of
                                          Throws e \<Rightarrow>
                                            \<lparr>calls = c3, progress = p3, outcomeOf = Some (Inl e)\<rparr>
                                        | Returns objectUrl \<Rightarrow>
                                            \<lparr>calls = c3, progress = p3,
                                             outcomeOf = Some (Inr objectUrl)\<rparr>)))))))))))"

definition videoCatch :: "fault \<Rightarrow> fault" where
  "videoCatch error =
     (if errorMessageIncludes error (js ''API key'')
      then JsError (js ''The API key is invalid or missing. Please select a valid key and try again.'')
      else if errorMessageIncludes error (js ''not found'')
      then JsError (js ''API Key validation failed. Please re-select your API key and try again.'')
      else JsError (js ''Failed to generate the video due to an API error. Please try again later.''))"

definition generateVideo ::
  "jsstring \<Rightarrow> jsstring \<Rightarrow> aspect \<Rightarrow> jsstring option \<Rightarrow> videoService \<Rightarrow> videoRun" where
  "generateVideo base64Image userPrompt ratio apiKey svc =
     (let run = generateVideo_try base64Image userPrompt ratio apiKey svc
      in
      (case outcomeOf run of
         Some (Inl error) \<Rightarrow> run\<lparr>outcomeOf := Some (Inl (videoCatch error))\<rparr>
       | Some (Inr objectUrl) \<Rightarrow> run
       | None \<Rightarrow> run))"

section \<open>View-state controller (App.tsx)\<close>

datatype appStep = UPLOAD | STYLE | EDIT | VIDEO

datatype hostCall = HasSelectedApiKey | OpenSelectKey

text \<open>
  The state of the component: its sixteen \<open>useState\<close> and \<open>useRef\<close> cells, the
  closure variable \<open>messageIndex\<close> of the running video handler, and what the
  controller has done to its surroundings: the interval timers of the window that are
  active, the remote calls and host queries issued so far, and the lines that the
  \<open>onProgress\<close> callback has written.
\<close>

record appState =
  step :: appStep
  originalImage :: "jsstring option"
  generatedImage :: "jsstring option"
  stylePrompt :: jsstring
  editPrompt :: jsstring
  isLoading :: bool
  loadingMessage :: jsstring
  error :: "jsstring option"
  isChatOpen :: bool
  videoPrompt :: jsstring
  aspectRatio :: aspect
  generatedVideoUrl :: "jsstring option"
  isKeySelected :: bool
  loadingMessageIntervalRef :: "nat option"
  isGeneratingAudio :: bool
  generatedAudioUrl :: "jsstring option"
  messageIndex :: nat
  activeIntervals :: "nat set"
  remoteCalls :: "remoteCall list"
  hostCalls :: "hostCall list"
  videoProgress :: "jsstring list"

definition initialState :: appState where
  "initialState =
     \<lparr>step = UPLOAD, originalImage = None, generatedImage = None, stylePrompt = [],
      editPrompt = [], isLoading = False, loadingMessage = [], error = None,
      isChatOpen = False, videoPrompt = [], aspectRatio = Landscape, generatedVideoUrl = None,
      isKeySelected = False, loadingMessageIntervalRef = None, isGeneratingAudio = False,
      generatedAudioUrl = None, messageIndex = 0, activeIntervals = {}, remoteCalls = [],
      hostCalls = [], videoProgress = []\<rparr>"

text \<open>The catalog of constants.ts, as pairs of name and prompt.\<close>

definition HEADSHOT_STYLES :: "(jsstring \<times> jsstring) list" where
  "HEADSHOT_STYLES =
     [(js ''Corporate Grey'', js ''A professional corporate headshot with a solid, neutral grey backdrop. The lighting should be soft and even. The person should be wearing a classic business suit or blazer.''),
      (js ''Modern Tech Office'', js ''A professional headshot set in a modern, brightly-lit tech office with a tastefully blurred background featuring glass walls and plants. The person should be wearing smart casual attire like a button-down shirt.''),
      (js ''Outdoor Natural'', js ''A professional headshot taken outdoors with soft, natural light. The background should be a pleasant, out-of-focus natural scene like a park or green space. The attire should be business casual.''),
      (js ''Black & White'', js ''A classic, dramatic black and white headshot with strong, moody lighting against a dark backdrop. The focus should be on facial expression. Attire should be simple and dark.''),
      (js ''Creative Studio'', js ''A vibrant, creative headshot against a colorful, solid backdrop (e.g., teal, mustard yellow). The lighting is bright and energetic. The person can have a more expressive pose and creative attire.''),
      (js ''Academic'', js ''A professional headshot set against a backdrop of a bookshelf or a university campus setting. The person should look thoughtful and approachable, wearing academic or smart casual attire.'')]"

definition VIDEO_LOADING_MESSAGES :: "jsstring list" where
  "VIDEO_LOADING_MESSAGES =
     [js ''Warming up the director's chair...'',
      js ''Setting up the virtual cameras...'',
      js ''Action! The AI is starting to film.'',
      js ''Rendering your masterpiece, frame by frame.'',
      js ''This can take a few minutes, good things come to those who wait!'',
      js ''Applying final special effects...'',
      js ''Almost ready for the premiere!'']"

text \<open>
  The host capability \<open>window.aistudio\<close>, which may be absent, with the answers of its
  two functions; and the message the engine gives the \<open>TypeError\<close> of calling a method
  of \<open>undefined\<close>.
\<close>

record aistudio =
  hasSelectedApiKey :: "bool outcome"
  openSelectKey :: "unit outcome"

record window =
  aistudioOf :: "aistudio option"
  typeErrorMessage :: jsstring

text \<open>\<open>err instanceof Error ? err.message : fallback\<close>.\<close>

fun caughtMessage :: "fault \<Rightarrow> jsstring \<Rightarrow> jsstring" where
  "caughtMessage (JsError message) fallback = message"
| "caughtMessage (NonError m) fallback = fallback"

text \<open>
  \<open>if (ref.current) { clearInterval(ref.current); ref.current = null; }\<close>. A handle is
  truthy when it is not \<open>0\<close>; \<open>window.setInterval\<close> gives handles above \<open>0\<close>.
\<close>

definition clearLoadingInterval :: "appState \<Rightarrow> appState" where
  "clearLoadingInterval s =
     (case loadingMessageIntervalRef s of
        None \<Rightarrow> s
      | Some h \<Rightarrow>
          if h \<noteq> 0
          then s\<lparr>activeIntervals := activeIntervals s - {h}, loadingMessageIntervalRef := None\<rparr>
          else s)"

text \<open>The active timers that the block above can still cancel.\<close>

definition trackedTimers :: "appState \<Rightarrow> nat set" where
  "trackedTimers s =
     (case loadingMessageIntervalRef s of
        None \<Rightarrow> {}
      | Some h \<Rightarrow> if h \<noteq> 0 then {h} else {})"

definition handleImageUpload :: "appState \<Rightarrow> jsstring \<Rightarrow> appState" where
  "handleImageUpload s base64Image =
     s\<lparr>originalImage := Some base64Image, generatedImage := None, stylePrompt := [],
       error := None, step := STYLE\<rparr>"

definition handleReset :: "appState \<Rightarrow> appState" where
  "handleReset s =
     clearLoadingInterval
       (s\<lparr>step := UPLOAD, originalImage := None, generatedImage := None, stylePrompt := [],
          editPrompt := [], isLoading := False, loadingMessage := [], error := None,
          videoPrompt := [], aspectRatio := Landscape, generatedVideoUrl := None,
          generatedAudioUrl := None\<rparr>)"

text \<open>
  A handler is run from the click to its last statement, with the answers of the
  collaborators as parameters; no other event is taken in between.
\<close>

definition handleGenerate :: "appState \<Rightarrow> contentResponse outcome \<Rightarrow> appState" where
  "handleGenerate s answer =
     (if \<not> truthy (originalImage s) \<or> stylePrompt s = [] then s
      else
        (case originalImage s of
           None \<Rightarrow> s
         | Some img \<Rightarrow>
             (let s1 = s\<lparr>isLoading := True,
                        loadingMessage := js ''Crafting your new headshot... This may take a moment.'',
                        error := None\<rparr>
              in
              (case generateImage img (stylePrompt s) False answer of
                 (issued, Inr result) \<Rightarrow>
                   s1\<lparr>remoteCalls := remoteCalls s1 @ issued, generatedImage := Some result,
                      step := EDIT, isLoading := False\<rparr>
               | (issued, Inl err) \<Rightarrow>
                   s1\<lparr>remoteCalls := remoteCalls s1 @ issued,
                      error := Some (caughtMessage err (js ''An unknown error occurred.'')),
                      isLoading := False\<rparr>))))"

text \<open>The state of \<open>handleEdit\<close> at the moment it calls \<open>generateImage\<close>.\<close>

definition handleEdit_atCall :: "appState \<Rightarrow> appState" where
  "handleEdit_atCall s =
     s\<lparr>isLoading := True, loadingMessage := js ''Applying your edits...'', error := None,
       generatedAudioUrl := None\<rparr>"

definition handleEdit :: "appState \<Rightarrow> contentResponse outcome \<Rightarrow> appState" where
  "handleEdit s answer =
     (if \<not> truthy (generatedImage s) \<or> editPrompt s = [] then s
      else
        (case generatedImage s of
           None \<Rightarrow> s
         | Some img \<Rightarrow>
             (let s1 = handleEdit_atCall s
              in
              (case generateImage img (editPrompt s) True answer of
                 (issued, Inr result) \<Rightarrow>
                   s1\<lparr>remoteCalls := remoteCalls s1 @ issued, generatedImage := Some result,
                      editPrompt := [], isLoading := False\<rparr>
               | (issued, Inl err) \<Rightarrow>
                   s1\<lparr>remoteCalls := remoteCalls s1 @ issued,
                      error := Some (caughtMessage err (js ''An unknown error occurred.'')),
                      isLoading := False\<rparr>))))"

definition handleGenerateVoiceGuide ::
  "appState \<Rightarrow> browser \<Rightarrow> jsstring option outcome \<Rightarrow> appState" where
  "handleGenerateVoiceGuide s b answer =
     (if stylePrompt s = [] then s
      else
        (let styleName =
               (case find (\<lambda>style. snd style = stylePrompt s) HEADSHOT_STYLES of
                  None \<Rightarrow> js ''this''
                | Some style \<Rightarrow> if fst style = [] then js ''this'' else fst style);
             guidePrompt =
               js ''Give a friendly, concise voice guide for a headshot in the '' @ [0x27]
                 @ styleName @ [0x27] @ js '' style. Include one quick photography tip.'';
             s1 = s\<lparr>isGeneratingAudio := True, error := None\<rparr>
         in
         (case generateSpeech guidePrompt b answer of
            (issued, Inr audioUrl) \<Rightarrow>
              s1\<lparr>remoteCalls := remoteCalls s1 @ issued, generatedAudioUrl := Some audioUrl,
                 isGeneratingAudio := False\<rparr>
          | (issued, Inl err) \<Rightarrow>
              s1\<lparr>remoteCalls := remoteCalls s1 @ issued,
                 error := Some (caughtMessage err (js ''Failed to generate audio.'')),
                 isGeneratingAudio := False\<rparr>)))"

text \<open>\<open>checkApiKey\<close>: the state after it, and the value it resolves to or the fault.\<close>

definition checkApiKey :: "appState \<Rightarrow> window \<Rightarrow> appState \<times> (fault + bool)" where
  "checkApiKey s w =
     (case aistudioOf w of
        None \<Rightarrow> (s, Inr False)
      | Some host \<Rightarrow>
          (case hasSelectedApiKey host of
             Throws e \<Rightarrow> (s\<lparr>hostCalls := hostCalls s @ [HasSelectedApiKey]\<rparr>, Inl e)
           | Returns hasKey \<Rightarrow>
               (s\<lparr>hostCalls := hostCalls s @ [HasSelectedApiKey], isKeySelected := hasKey\<rparr>,
                Inr hasKey)))"

text \<open>
  The button \<open>Animate Your Headshot\<close> sets the step to \<open>VIDEO\<close>; the effect on
  \<open>step\<close> then calls \<open>checkApiKey\<close> and drops its result.
\<close>

definition enterVideoStep :: "appState \<Rightarrow> window \<Rightarrow> appState" where
  "enterVideoStep s w = fst (checkApiKey (s\<lparr>step := VIDEO\<rparr>) w)"

text \<open>\<open>await window.aistudio.openSelectKey(); setIsKeySelected(true)\<close>.\<close>

definition requestKey :: "appState \<Rightarrow> window \<Rightarrow> (appState \<times> fault) + appState" where
  "requestKey s w =
     (case aistudioOf w of
        None \<Rightarrow> Inl (s, JsError (typeErrorMessage w))
      | Some host \<Rightarrow>
          (case openSelectKey host of
             Throws e \<Rightarrow> Inl (s\<lparr>hostCalls := hostCalls s @ [OpenSelectKey]\<rparr>, e)
           | Returns u \<Rightarrow>
               Inr (s\<lparr>hostCalls := hostCalls s @ [OpenSelectKey], isKeySelected := True\<rparr>)))"

text \<open>The callback of the five-second interval.\<close>

definition rotateLoadingMessage :: "appState \<Rightarrow> appState" where
  "rotateLoadingMessage s =
     (let i = (messageIndex s + 1) mod length VIDEO_LOADING_MESSAGES
      in s\<lparr>messageIndex := i, loadingMessage := VIDEO_LOADING_MESSAGES ! i\<rparr>)"

text \<open>The \<open>onProgress\<close> callback that \<open>handleGenerateVideo\<close> passes: it writes a line.\<close>

definition onProgress :: "appState \<Rightarrow> jsstring \<Rightarrow> appState" where
  "onProgress s message = s\<lparr>videoProgress := videoProgress s @ [message]\<rparr>"

text \<open>The \<open>catch\<close> and the \<open>finally\<close> block of \<open>handleGenerateVideo\<close>.\<close>

definition videoFailed :: "appState \<Rightarrow> fault \<Rightarrow> appState" where
  "videoFailed s err =
     s\<lparr>error := Some (caughtMessage err (js ''An unknown error occurred while generating the video.''))\<rparr>"

definition videoFinally :: "appState \<Rightarrow> appState" where
  "videoFinally s = (clearLoadingInterval s)\<lparr>isLoading := False\<rparr>"

text \<open>
  \<open>handleGenerateVideo\<close>. \<open>handle\<close> is what \<open>window.setInterval\<close> returns,
  \<open>ticks\<close> the number of times the interval fires while \<open>generateVideo\<close> is awaited.
  While \<open>generateVideo\<close> has not returned, the handler has not reached its
  \<open>finally\<close> block.
\<close>

definition handleGenerateVideo ::
  "appState \<Rightarrow> window \<Rightarrow> nat \<Rightarrow> nat \<Rightarrow> jsstring option \<Rightarrow> videoService \<Rightarrow> appState" where
  "handleGenerateVideo s w handle ticks apiKey svc =
     (if \<not> truthy (generatedImage s) \<or> videoPrompt s = [] then s
      else
        (case generatedImage s of
           None \<Rightarrow> s
         | Some img \<Rightarrow>
             (case checkApiKey s w of
                (s1, Inl err) \<Rightarrow> videoFinally (videoFailed s1 err)
              | (s1, Inr hasKey) \<Rightarrow>
                  (case (if \<not> hasKey then requestKey s1 w else Inr s1) of
                     Inl (s2, err) \<Rightarrow> videoFinally (videoFailed s2 err)
                   | Inr s2 \<Rightarrow>
                       (let s3 = s2\<lparr>isLoading := True, messageIndex := 0,
                                   loadingMessage := VIDEO_LOADING_MESSAGES ! 0,
                                   loadingMessageIntervalRef := Some handle,
                                   activeIntervals := insert handle (activeIntervals s2)\<rparr>;
                            run = generateVideo img (videoPrompt s) (aspectRatio s) apiKey svc;
                            s4 = (rotateLoadingMessage ^^ ticks) s3;
                            s5 = foldl onProgress s4 (progress run);
                            s6 = s5\<lparr>remoteCalls := remoteCalls s5 @ calls run\<rparr>
                        in
                        (case outcomeOf run of
                           None \<Rightarrow> s6
                         | Some (Inr result) \<Rightarrow>
                             videoFinally (s6\<lparr>generatedVideoUrl := Some result\<rparr>)
                         | Some (Inl err) \<Rightarrow> videoFinally (videoFailed s6 err)))))))"


section \<open>A session at the video step\<close>

text \<open>
  The state of the video form, with a generated image, a motion prompt and the key
  selected; a host that reports the key as selected; and six behaviours of the video
  service: the submission is refused; the job is accepted and no poll has been answered
  yet; the second poll fails; the job ends without a video; the job ends with a video and
  the download is refused; the job ends with a video that is delivered.
\<close>

definition videoFormState :: appState where
  "videoFormState =
     initialState\<lparr>step := VIDEO, originalImage := Some (js ''data:image/png;base64,AAAA''),
       generatedImage := Some (js ''data:image/png;base64,BBBB''),
       stylePrompt := js ''grey'', videoPrompt := js ''a slow zoom'', isKeySelected := True\<rparr>"

definition hostWithKey :: window where
  "hostWithKey =
     \<lparr>aistudioOf = Some \<lparr>hasSelectedApiKey = Returns True, openSelectKey = Returns ()\<rparr>,
      typeErrorMessage = []\<rparr>"

definition refusingService :: videoService where
  "refusingService =
     \<lparr>keyUnsetMessage = js ''An API Key must be set when running in a browser'',
      generateVideos = Throws (JsError (js ''Failed to fetch'')),
      getVideosOperation = [],
      fetch = Throws (NonError None)\<rparr>"

definition pollingService :: videoService where
  "pollingService =
     \<lparr>keyUnsetMessage = js ''An API Key must be set when running in a browser'',
      generateVideos = Returns \<lparr>isDone = False, videoUri = None\<rparr>,
      getVideosOperation = [],
      fetch = Throws (NonError None)\<rparr>"

definition failingPollService :: videoService where
  "failingPollService =
     \<lparr>keyUnsetMessage = js ''An API Key must be set when running in a browser'',
      generateVideos = Returns \<lparr>isDone = False, videoUri = None\<rparr>,
      getVideosOperation = [Returns \<lparr>isDone = False, videoUri = None\<rparr>,
                            Throws (JsError (js ''Failed to fetch''))],
      fetch = Throws (NonError None)\<rparr>"

definition emptyResultService :: videoService where
  "emptyResultService =
     \<lparr>keyUnsetMessage = js ''An API Key must be set when running in a browser'',
      generateVideos = Returns \<lparr>isDone = False, videoUri = None\<rparr>,
      getVideosOperation = [Returns \<lparr>isDone = True, videoUri = None\<rparr>],
      fetch = Throws (NonError None)\<rparr>"

definition brokenDownloadService :: videoService where
  "brokenDownloadService =
     \<lparr>keyUnsetMessage = js ''An API Key must be set when running in a browser'',
      generateVideos = Returns \<lparr>isDone = False, videoUri = None\<rparr>,
      getVideosOperation = [Returns \<lparr>isDone = True, videoUri = Some (js ''https://v/2?alt=media'')\<rparr>],
      fetch = Returns \<lparr>ok = False, statusText = js ''Forbidden'', bodyUrl = Throws (NonError None)\<rparr>\<rparr>"

definition deliveringService :: videoService where
  "deliveringService =
     \<lparr>keyUnsetMessage = js ''An API Key must be set when running in a browser'',
      generateVideos = Returns \<lparr>isDone = False, videoUri = None\<rparr>,
      getVideosOperation = [Returns \<lparr>isDone = True, videoUri = Some (js ''https://v/2?alt=media'')\<rparr>],
      fetch = Returns \<lparr>ok = True, statusText = js ''OK'', bodyUrl = Returns (js ''blob:2'')\<rparr>\<rparr>"


section \<open>Properties of the codec helpers\<close>

subsection \<open>Strings\<close>

text \<open>\<open>includes_js\<close> is the contiguous-sublist relation of the library.\<close>

lemma includes_js_sublist: "includes_js s t \<longleftrightarrow> sublist t s"
  by (induction s) (simp_all add: sublist_Cons_right)

subsection \<open>The data-URL decoder\<close>

lemma stripPrefix_append [simp]: "stripPrefix p (p @ r) = Some r"
  by (induction p) auto

lemma stripPrefix_Some: "stripPrefix p s = Some r \<Longrightarrow> s = p @ r"
  by (induction p s rule: stripPrefix.induct) (auto split: if_splits)

lemma semicolon_not_word: "\<not> isWordChar 0x3B"
  by (simp add: isWordChar_def)

lemma js_base64_Cons: "js '';base64,'' = 0x3B # js ''base64,''"
  by (simp add: js_def)

lemma matchDataUrl_complete:
  assumes "dataUrlPattern s mime payload"
  shows "matchDataUrl s = Some (mime, payload)"
proof -
  from assms obtain w where w: "w \<noteq> []" "\<forall>c \<in> set w. isWordChar c"
    and mime: "mime = js ''image/'' @ w"
    and pl: "\<forall>c \<in> set payload. \<not> isLineTerminator c"
    and s: "s = js ''data:'' @ mime @ js '';base64,'' @ payload"
    by (auto simp: dataUrlPattern_def)
  let ?rest = "js '';base64,'' @ payload"
  have tw: "takeWhile isWordChar (w @ ?rest) = w"
    using w(2) semicolon_not_word by (simp add: js_base64_Cons takeWhile_tail)
  have dw: "dropWhile isWordChar (w @ ?rest) = ?rest"
    using w(2) semicolon_not_word by (simp add: js_base64_Cons dropWhile_append3)
  have ex: "\<not> list_ex isLineTerminator payload"
    using pl by (simp add: list_ex_iff)
  show ?thesis
    unfolding matchDataUrl_def s mime
    using w(1) ex by (simp add: tw dw Let_def del: append_assoc add: append_assoc)
qed

lemma matchDataUrl_sound:
  assumes "matchDataUrl s = Some (mime, payload)"
  shows "dataUrlPattern s mime payload"
proof -
  from assms obtain r0 r1 where r0: "stripPrefix (js ''data:'') s = Some r0"
    and r1: "stripPrefix (js ''image/'') r0 = Some r1"
    and wne: "takeWhile isWordChar r1 \<noteq> []"
    and p: "stripPrefix (js '';base64,'') (dropWhile isWordChar r1) = Some payload"
    and lt: "\<not> list_ex isLineTerminator payload"
    and m: "mime = js ''image/'' @ takeWhile isWordChar r1"
    by (auto simp: matchDataUrl_def Let_def split: option.splits if_splits)
  have "r1 = takeWhile isWordChar r1 @ dropWhile isWordChar r1" by simp
  with stripPrefix_Some[OF p] have "r1 = takeWhile isWordChar r1 @ js '';base64,'' @ payload"
    by simp
  with stripPrefix_Some[OF r0] stripPrefix_Some[OF r1] m
  have s: "s = js ''data:'' @ mime @ js '';base64,'' @ payload" by simp
  have "\<forall>c \<in> set (takeWhile isWordChar r1). isWordChar c"
    by (auto dest: set_takeWhileD)
  with wne m lt s show ?thesis
    unfolding dataUrlPattern_def by (auto simp: list_ex_iff)
qed

text \<open>
  Claim C2. A string of the shape \<open>data:<mime>;base64,<payload>\<close> that matches the
  pattern is decoded to exactly that mime type and that payload; a string that matches the
  pattern for no mime type and payload makes the decoder throw the error
  \<open>Invalid base64 string format\<close>.
\<close>

theorem fileToGenerativePart_pattern:
  "(dataUrlPattern s mime payload \<longrightarrow>
      fileToGenerativePart s = Inr \<lparr>data = payload, mimeType = mime\<rparr>) \<and>
   ((\<nexists>mime payload. dataUrlPattern s mime payload) \<longrightarrow>
      fileToGenerativePart s = Inl (JsError (js ''Invalid base64 string format'')))"
proof (intro conjI impI)
  assume "dataUrlPattern s mime payload"
  then show "fileToGenerativePart s = Inr \<lparr>data = payload, mimeType = mime\<rparr>"
    by (simp add: fileToGenerativePart_def matchDataUrl_complete)
next
  assume no: "\<nexists>mime payload. dataUrlPattern s mime payload"
  have "matchDataUrl s = None"
  proof (cases "matchDataUrl s")
    case None
    then show ?thesis .
  next
    case (Some mp)
    then have "dataUrlPattern s (fst mp) (snd mp)"
      by (intro matchDataUrl_sound) simp
    with no show ?thesis by blast
  qed
  then show "fileToGenerativePart s = Inl (JsError (js ''Invalid base64 string format''))"
    by (simp add: fileToGenerativePart_def)
qed

theorem fileToGenerativePart_pattern_witness:
  "dataUrlPattern (js ''data:image/png;base64,iVBORw0KGgo='') (js ''image/png'') (js ''iVBORw0KGgo='') \<and>
   fileToGenerativePart (js ''data:image/png;base64,iVBORw0KGgo='')
     = Inr \<lparr>data = js ''iVBORw0KGgo='', mimeType = js ''image/png''\<rparr> \<and>
   (\<nexists>mime payload. dataUrlPattern (js ''data:text/plain;base64,aGk='') mime payload) \<and>
   fileToGenerativePart (js ''data:text/plain;base64,aGk='')
     = Inl (JsError (js ''Invalid base64 string format''))"
proof -
  have a: "dataUrlPattern (js ''data:image/png;base64,iVBORw0KGgo='') (js ''image/png'') (js ''iVBORw0KGgo='')"
    unfolding dataUrlPattern_def
    by (intro conjI exI[of _ "js ''png''"]) (simp_all add: js_def isWordChar_def isLineTerminator_def)
  have b: "\<nexists>mime payload. dataUrlPattern (js ''data:text/plain;base64,aGk='') mime payload"
    by (auto simp: dataUrlPattern_def js_def)
  show ?thesis
    using a b fileToGenerativePart_pattern[of "js ''data:image/png;base64,iVBORw0KGgo=''" "js ''image/png''" "js ''iVBORw0KGgo=''"]
      fileToGenerativePart_pattern[of "js ''data:text/plain;base64,aGk=''"]
    by blast
qed

subsection \<open>The WAVE container\<close>

lemma le32_sum:
  "(v::int) mod 256 + 256 * (v div 256 mod 256) + 65536 * (v div 65536 mod 256)
     + 16777216 * (v div 16777216 mod 256) = v mod 4294967296"
proof -
  have a: "v mod 4294967296 = 256 * (v div 256 mod 16777216) + v mod 256"
    using zmod_zmult2_eq[of 16777216 v 256] by simp
  have b: "v div 256 mod 16777216 = 256 * (v div 256 div 256 mod 65536) + v div 256 mod 256"
    using zmod_zmult2_eq[of 65536 "v div 256" 256] by simp
  have c: "v div 256 div 256 mod 65536 = 256 * (v div 256 div 256 div 256 mod 256) + v div 256 div 256 mod 256"
    using zmod_zmult2_eq[of 256 "v div 256 div 256" 256] by simp
  have d: "v div 65536 = v div 256 div 256" "v div 16777216 = v div 256 div 256 div 256"
    by (simp_all add: zdiv_zmult2_eq[symmetric])
  show ?thesis unfolding d using a b c by linarith
qed

lemma take_update_last:
  "k < length xs \<Longrightarrow> take (Suc k) (xs[k := b]) = take k xs @ [b]"
  by (simp add: take_Suc_conv_app_nth)

lemma writePcm_fits:
  "length view = 44 + i + length bs \<Longrightarrow> writePcm view i bs = Inr (take (44 + i) view @ bs)"
proof (induction bs arbitrary: view i)
  case Nil
  then show ?case by simp
next
  case (Cons b bs)
  have lt: "44 + i < length view" using Cons.prems by simp
  have "writePcm (view[44 + i := b]) (Suc i) bs = Inr (take (44 + Suc i) (view[44 + i := b]) @ bs)"
    using Cons.prems by (intro Cons.IH) simp
  moreover have "take (44 + Suc i) (view[44 + i := b]) = take (44 + i) view @ [b]"
    using take_update_last[OF lt] by simp
  ultimately show ?case
    using lt by (simp add: setUint8_def andThen_def)
qed

lemma uint_byte: "uint (word_of_int v :: byte) = v mod 256"
  by (simp add: uint_word_of_int)

lemma getUint32LE_sameOutside:
  "sameOutside lo hi view view' \<Longrightarrow> off + 4 \<le> lo \<or> hi \<le> off \<Longrightarrow>
     getUint32LE view' off = getUint32LE view off"
  by (auto simp: sameOutside_def getUint32LE_def)

lemma setUint8_frame:
  "off < length view \<Longrightarrow>
     \<exists>view'. setUint8 view off v = Inr view' \<and> sameOutside off (off + 1) view view'"
  by (simp add: setUint8_def sameOutside_def)

lemma setUint16_frame:
  "off + 2 \<le> length view \<Longrightarrow>
     \<exists>view'. setUint16 view off v True = Inr view' \<and> sameOutside off (off + 2) view view'"
  by (simp add: setUint16_def sameOutside_def)

lemma setUint32_frame:
  "off + 4 \<le> length view \<Longrightarrow>
     \<exists>view'. setUint32 view off v True = Inr view' \<and> sameOutside off (off + 4) view view' \<and>
       getUint32LE view' off = v mod 4294967296"
  by (simp add: setUint32_def sameOutside_def getUint32LE_def uint_byte le32_sum)

lemma writeString_frame:
  "offset + length cs \<le> length view \<Longrightarrow>
     \<exists>view'. writeString view offset cs = Inr view' \<and> sameOutside offset (offset + length cs) view view'"
proof (induction cs arbitrary: view offset)
  case Nil
  then show ?case by (simp add: sameOutside_def)
next
  case (Cons c cs)
  from Cons.prems obtain v1 where v1: "setUint8 view offset (uint c) = Inr v1"
      "sameOutside offset (offset + 1) view v1"
    using setUint8_frame[of offset view "uint c"] by auto
  then have len: "length v1 = length view" by (simp add: sameOutside_def)
  with Cons.prems obtain v2 where v2: "writeString v1 (offset + 1) cs = Inr v2"
      "sameOutside (offset + 1) (offset + 1 + length cs) v1 v2"
    using Cons.IH[of "offset + 1" v1] by auto
  from v1(2) v2(2) have "sameOutside offset (offset + length (c # cs)) view v2"
    by (auto simp: sameOutside_def)
  with v1(1) v2(1) show ?case by (simp add: andThen_def)
qed

lemma js_length [simp]: "length (js s) = length s"
  by (simp add: js_def)

lemma writeString_frame4:
  "length cs = 4 \<Longrightarrow> offset + 4 \<le> length view \<Longrightarrow>
     \<exists>view'. writeString view offset cs = Inr view' \<and> sameOutside offset (offset + 4) view view'"
  using writeString_frame[of offset cs view] by simp

lemma getUint32LE_take_append:
  "off + 4 \<le> m \<Longrightarrow> m \<le> length xs \<Longrightarrow>
     getUint32LE (take m xs @ ys) off = getUint32LE xs off"
  by (simp add: getUint32LE_def nth_append)

lemma pcmToWav_header:
  "\<exists>hdr. length hdr = 44 + byteLength pcmData \<and>
     pcmToWav pcmData sampleRate = writePcm hdr 0 (buffer pcmData) \<and>
     getUint32LE hdr 4 = (36 + int (byteLength pcmData)) mod 4294967296 \<and>
     getUint32LE hdr 40 = int (byteLength pcmData) mod 4294967296"
proof -
  define n where "n = byteLength pcmData"
  define v0 :: "byte list" where "v0 = replicate (44 + n) 0"
  have l0: "length v0 = 44 + n" by (simp add: v0_def)
  obtain v1 where v1: "writeString v0 0 (js ''RIFF'') = Inr v1" "sameOutside 0 4 v0 v1"
    using writeString_frame4[of "js ''RIFF''" 0 v0] l0 by auto
  have l1: "length v1 = 44 + n" using v1(2) l0 by (simp add: sameOutside_def)
  obtain v2 where v2: "setUint32 v1 4 (36 + int n) True = Inr v2" "sameOutside 4 8 v1 v2"
      "getUint32LE v2 4 = (36 + int n) mod 4294967296"
    using setUint32_frame[of 4 v1 "36 + int n"] l1 by auto
  have l2: "length v2 = 44 + n" using v2(2) l1 by (simp add: sameOutside_def)
  obtain v3 where v3: "writeString v2 8 (js ''WAVE'') = Inr v3" "sameOutside 8 12 v2 v3"
    using writeString_frame4[of "js ''WAVE''" 8 v2] l2 by auto
  have l3: "length v3 = 44 + n" using v3(2) l2 by (simp add: sameOutside_def)
  obtain v4 where v4: "writeString v3 12 (js ''fmt '') = Inr v4" "sameOutside 12 16 v3 v4"
    using writeString_frame4[of "js ''fmt ''" 12 v3] l3 by auto
  have l4: "length v4 = 44 + n" using v4(2) l3 by (simp add: sameOutside_def)
  obtain v5 where v5: "setUint32 v4 16 16 True = Inr v5" "sameOutside 16 20 v4 v5"
    using setUint32_frame[of 16 v4 16] l4 by auto
  have l5: "length v5 = 44 + n" using v5(2) l4 by (simp add: sameOutside_def)
  obtain v6 where v6: "setUint16 v5 20 1 True = Inr v6" "sameOutside 20 22 v5 v6"
    using setUint16_frame[of 20 v5 1] l5 by auto
  have l6: "length v6 = 44 + n" using v6(2) l5 by (simp add: sameOutside_def)
  obtain v7 where v7: "setUint16 v6 22 1 True = Inr v7" "sameOutside 22 24 v6 v7"
    using setUint16_frame[of 22 v6 1] l6 by auto
  have l7: "length v7 = 44 + n" using v7(2) l6 by (simp add: sameOutside_def)
  obtain v8 where v8: "setUint32 v7 24 sampleRate True = Inr v8" "sameOutside 24 28 v7 v8"
    using setUint32_frame[of 24 v7 sampleRate] l7 by auto
  have l8: "length v8 = 44 + n" using v8(2) l7 by (simp add: sameOutside_def)
  obtain v9 where v9: "setUint32 v8 28 (sampleRate * 2) True = Inr v9" "sameOutside 28 32 v8 v9"
    using setUint32_frame[of 28 v8 "sampleRate * 2"] l8 by auto
  have l9: "length v9 = 44 + n" using v9(2) l8 by (simp add: sameOutside_def)
  obtain v10 where v10: "setUint16 v9 32 2 True = Inr v10" "sameOutside 32 34 v9 v10"
    using setUint16_frame[of 32 v9 2] l9 by auto
  have l10: "length v10 = 44 + n" using v10(2) l9 by (simp add: sameOutside_def)
  obtain v11 where v11: "setUint16 v10 34 16 True = Inr v11" "sameOutside 34 36 v10 v11"
    using setUint16_frame[of 34 v10 16] l10 by auto
  have l11: "length v11 = 44 + n" using v11(2) l10 by (simp add: sameOutside_def)
  obtain v12 where v12: "writeString v11 36 (js ''data'') = Inr v12" "sameOutside 36 40 v11 v12"
    using writeString_frame4[of "js ''data''" 36 v11] l11 by auto
  have l12: "length v12 = 44 + n" using v12(2) l11 by (simp add: sameOutside_def)
  obtain v13 where v13: "setUint32 v12 40 (int n) True = Inr v13" "sameOutside 40 44 v12 v13"
      "getUint32LE v13 40 = int n mod 4294967296"
    using setUint32_frame[of 40 v12 "int n"] l12 by auto
  have l13: "length v13 = 44 + n" using v13(2) l12 by (simp add: sameOutside_def)
  have run: "pcmToWav pcmData sampleRate = writePcm v13 0 (buffer pcmData)"
    unfolding pcmToWav_def Let_def n_def[symmetric] v0_def[symmetric]
    by (simp add: v1 v2 v3 v4 v5 v6 v7 v8 v9 v10 v11 v12 v13 andThen_def)
  have g4: "getUint32LE v13 4 = getUint32LE v2 4"
    using getUint32LE_sameOutside[OF v13(2), of 4]
      getUint32LE_sameOutside[OF v12(2), of 4] getUint32LE_sameOutside[OF v11(2), of 4]
      getUint32LE_sameOutside[OF v10(2), of 4] getUint32LE_sameOutside[OF v9(2), of 4]
      getUint32LE_sameOutside[OF v8(2), of 4] getUint32LE_sameOutside[OF v7(2), of 4]
      getUint32LE_sameOutside[OF v6(2), of 4] getUint32LE_sameOutside[OF v5(2), of 4]
      getUint32LE_sameOutside[OF v4(2), of 4] getUint32LE_sameOutside[OF v3(2), of 4]
    by simp
  show ?thesis
    using run g4 l13 v2(3) v13(3) by (auto simp: n_def)
qed

lemma pcmToWav_spans:
  assumes "spansBuffer pcmData"
  shows "\<exists>out. pcmToWav pcmData sampleRate = Inr out \<and>
           length out = 44 + byteLength pcmData \<and>
           getUint32LE out 4 = (36 + int (byteLength pcmData)) mod 4294967296 \<and>
           getUint32LE out 40 = int (byteLength pcmData) mod 4294967296 \<and>
           drop 44 out = buffer pcmData"
proof -
  have n: "length (buffer pcmData) = byteLength pcmData"
    using assms by (simp add: spansBuffer_def)
  from pcmToWav_header[of pcmData sampleRate] obtain hdr where
    hdr: "length hdr = 44 + byteLength pcmData"
      "pcmToWav pcmData sampleRate = writePcm hdr 0 (buffer pcmData)"
      "getUint32LE hdr 4 = (36 + int (byteLength pcmData)) mod 4294967296"
      "getUint32LE hdr 40 = int (byteLength pcmData) mod 4294967296"
    by blast
  have fin: "writePcm hdr 0 (buffer pcmData) = Inr (take 44 hdr @ buffer pcmData)"
    using writePcm_fits[of hdr 0 "buffer pcmData"] hdr(1) n by simp
  have "getUint32LE (take 44 hdr @ buffer pcmData) 4 = getUint32LE hdr 4"
    "getUint32LE (take 44 hdr @ buffer pcmData) 40 = getUint32LE hdr 40"
    using hdr(1) by (simp_all add: getUint32LE_take_append)
  with hdr fin n show ?thesis by simp
qed

text \<open>
  When the underlying buffer is longer than the array, the copy loop runs past the end of
  the view.
\<close>

lemma writePcm_overruns:
  "44 + i \<le> length view \<Longrightarrow> length view < 44 + i + length bs \<Longrightarrow>
     writePcm view i bs = Inl RangeError"
proof (induction bs arbitrary: view i)
  case Nil
  then show ?case by simp
next
  case (Cons b bs)
  show ?case
  proof (cases "44 + i < length view")
    case True
    then have "writePcm (view[44 + i := b]) (i + 1) bs = Inl RangeError"
      using Cons.prems by (intro Cons.IH) simp_all
    with True show ?thesis by (simp add: setUint8_def andThen_def)
  next
    case False
    then show ?thesis by (simp add: setUint8_def andThen_def)
  qed
qed

lemma pcmToWav_window_throws:
  assumes "byteLength pcmData < length (buffer pcmData)"
  shows "pcmToWav pcmData sampleRate = Inl RangeError"
proof -
  from pcmToWav_header[of pcmData sampleRate] obtain hdr where
    "length hdr = 44 + byteLength pcmData"
    "pcmToWav pcmData sampleRate = writePcm hdr 0 (buffer pcmData)"
    by blast
  then show ?thesis
    using assms writePcm_overruns[of 0 hdr "buffer pcmData"] by simp
qed

text \<open>
  Claim C1, as amended. For an input array that spans its whole buffer, and every integer
  sample rate, \<open>pcmToWav\<close> returns a stream of exactly \<open>44 + byteLength\<close> bytes, the
  input bytes after a 44-byte header, whose bytes 4 to 7 and 40 to 43 read little-endian as
  \<open>36 + byteLength\<close> and \<open>byteLength\<close> modulo \<open>2^32\<close>: they are exactly these sizes
  whenever \<open>36 + byteLength\<close> is below \<open>2^32\<close>.
\<close>

theorem pcmToWav_header_sizes:
  assumes "spansBuffer pcmData"
  shows "\<exists>out. pcmToWav pcmData sampleRate = Inr out \<and>
           length out = 44 + byteLength pcmData \<and>
           drop 44 out = buffer pcmData \<and>
           getUint32LE out 4 = (36 + int (byteLength pcmData)) mod 4294967296 \<and>
           getUint32LE out 40 = int (byteLength pcmData) mod 4294967296 \<and>
           (36 + byteLength pcmData < 4294967296 \<longrightarrow>
              getUint32LE out 4 = 36 + int (byteLength pcmData) \<and>
              getUint32LE out 40 = int (byteLength pcmData))"
proof -
  from pcmToWav_spans[OF assms, of sampleRate] obtain out where
    out: "pcmToWav pcmData sampleRate = Inr out" "length out = 44 + byteLength pcmData"
      "getUint32LE out 4 = (36 + int (byteLength pcmData)) mod 4294967296"
      "getUint32LE out 40 = int (byteLength pcmData) mod 4294967296"
      "drop 44 out = buffer pcmData"
    by blast
  have "36 + byteLength pcmData < 4294967296 \<Longrightarrow>
      (36 + int (byteLength pcmData)) mod 4294967296 = 36 + int (byteLength pcmData) \<and>
      int (byteLength pcmData) mod 4294967296 = int (byteLength pcmData)"
    by simp
  with out show ?thesis by simp
qed

theorem pcmToWav_header_sizes_witness:
  "spansBuffer \<lparr>buffer = [1, 2], byteOffset = 0, byteLength = 2\<rparr> \<and>
   (\<exists>out. pcmToWav \<lparr>buffer = [1, 2], byteOffset = 0, byteLength = 2\<rparr> 24000 = Inr out \<and>
      length out = 46 \<and> getUint32LE out 4 = 38 \<and> getUint32LE out 40 = 2)"
proof -
  have h: "spansBuffer \<lparr>buffer = [1, 2], byteOffset = 0, byteLength = 2\<rparr>"
    by (simp add: spansBuffer_def)
  show ?thesis
    using h pcmToWav_header_sizes[OF h, of 24000] by auto
qed

text \<open>
  The header fields are 32 bits wide. For an input of \<open>2^32 - 36\<close> bytes the stream has
  \<open>2^32 + 8\<close> bytes and bytes 4 to 7 read as \<open>0\<close>, not as \<open>36 + byteLength = 2^32\<close>.
\<close>

theorem pcmToWav_riff_size_wraps:
  "map_sum id wavSizes
     (pcmToWav \<lparr>buffer = replicate 4294967260 0, byteOffset = 0, byteLength = 4294967260\<rparr> 24000)
   = Inr (4294967304, 0, 4294967260)"
proof -
  let ?a = "\<lparr>buffer = replicate 4294967260 0, byteOffset = 0, byteLength = 4294967260\<rparr>"
  have h: "spansBuffer ?a"
    by (simp add: spansBuffer_def)
  from pcmToWav_spans[OF h, of 24000] obtain out where
    "pcmToWav ?a 24000 = Inr out" "length out = 44 + byteLength ?a"
      "getUint32LE out 4 = (36 + int (byteLength ?a)) mod 4294967296"
      "getUint32LE out 40 = int (byteLength ?a) mod 4294967296"
    by blast
  then show ?thesis by (simp add: wavSizes_def)
qed

text \<open>
  The copy loop runs over the whole underlying buffer. For a window of two bytes of a
  buffer of four it writes past the end of the view, and the \<open>RangeError\<close> escapes.
\<close>

lemma pcmToWav_subarray_throws:
  "wellFormed \<lparr>buffer = [1, 2, 3, 4], byteOffset = 1, byteLength = 2\<rparr> \<and>
   pcmToWav \<lparr>buffer = [1, 2, 3, 4], byteOffset = 1, byteLength = 2\<rparr> 24000 = Inl RangeError"
  by (simp add: wellFormed_def pcmToWav_def js_def setUint8_def setUint16_def setUint32_def andThen_def)


section \<open>Properties of the generation client\<close>

subsection \<open>Image synthesis without an image in the response\<close>

lemma firstInlineData_None:
  "firstInlineData parts = None \<longleftrightarrow> (\<forall>p \<in> set parts. inlineData p = None)"
  by (induction parts) (auto split: option.splits)

lemma invalid_format_no_key:
  "\<not> errorMessageIncludes (JsError (js ''Invalid base64 string format'')) (js ''API key'')"
  by (simp add: js_def)

lemma no_image_no_key:
  "\<not> errorMessageIncludes (JsError (js ''No image data was found in the API response.'')) (js ''API key'')"
  by (simp add: js_def)

lemma fileToGenerativePart_Inl:
  "fileToGenerativePart s = Inl e \<Longrightarrow> e = JsError (js ''Invalid base64 string format'')"
  by (auto simp: fileToGenerativePart_def split: option.splits)

text \<open>
  Claim C6, as amended. When the remote response holds no part with inline data, image
  synthesis fails, and the error its caller gets is the generic one with the message
  \<open>Failed to generate the image due to an API error. Please try again later.\<close>: the
  \<open>catch\<close> block replaces the error that the \<open>try\<close> block throws.
\<close>

theorem generateImage_no_inline_part:
  assumes "\<forall>p \<in> set parts. inlineData p = None"
  shows "snd (generateImage base64Image userPrompt isEdit (Returns (Parts parts)))
           = Inl (JsError (js ''Failed to generate the image due to an API error. Please try again later.''))"
proof -
  have none: "firstInlineData parts = None"
    using assms by (simp add: firstInlineData_None)
  show ?thesis
  proof (cases "fileToGenerativePart base64Image")
    case (Inl e)
    then have "e = JsError (js ''Invalid base64 string format'')"
      by (rule fileToGenerativePart_Inl)
    with Inl show ?thesis
      using invalid_format_no_key
      by (simp add: generateImage_def generateImage_try_def imageCatch_def)
  next
    case (Inr imgPart)
    then show ?thesis
      using none no_image_no_key
      by (simp add: generateImage_def generateImage_try_def imageCatch_def Let_def)
  qed
qed

text \<open>The amended claim C6 at a response that holds one text part.\<close>

theorem generateImage_no_inline_part_witness:
  "inlineData \<lparr>inlineData = None, partText = Some (js ''I cannot do that.'')\<rparr> = None \<and>
   snd (generateImage (js ''data:image/png;base64,AAAA'') (js ''a grey backdrop'') True
          (Returns (Parts [\<lparr>inlineData = None, partText = Some (js ''I cannot do that.'')\<rparr>])))
     = Inl (JsError (js ''Failed to generate the image due to an API error. Please try again later.''))"
  using generateImage_no_inline_part[of "[\<lparr>inlineData = None, partText = Some (js ''I cannot do that.'')\<rparr>]"
      "js ''data:image/png;base64,AAAA''" "js ''a grey backdrop''" True]
  by simp

text \<open>
  Against claim C6 as stated: for a response with one text part the \<open>try\<close> block throws
  the error \<open>No image data was found in the API response.\<close>, and the caller gets the
  generic error, the same one it gets when the transport fails.
\<close>

theorem generateImage_no_image_is_generic:
  "snd (generateImage_try (js ''data:image/png;base64,AAAA'') (js ''a grey backdrop'') False
          (Returns (Parts [\<lparr>inlineData = None, partText = Some (js ''I cannot do that.'')\<rparr>])))
     = Inl (JsError (js ''No image data was found in the API response.'')) \<and>
   snd (generateImage (js ''data:image/png;base64,AAAA'') (js ''a grey backdrop'') False
          (Returns (Parts [\<lparr>inlineData = None, partText = Some (js ''I cannot do that.'')\<rparr>])))
     = Inl (JsError (js ''Failed to generate the image due to an API error. Please try again later.'')) \<and>
   snd (generateImage (js ''data:image/png;base64,AAAA'') (js ''a grey backdrop'') False
          (Throws (JsError (js ''Failed to fetch''))))
     = Inl (JsError (js ''Failed to generate the image due to an API error. Please try again later.''))"
  by (simp add: generateImage_def generateImage_try_def imageCatch_def fileToGenerativePart_def
      matchDataUrl_def isWordChar_def isLineTerminator_def js_def)

subsection \<open>Faults thrown inside a synthesis call\<close>

text \<open>
  Claim C7, as amended. Whatever fault is thrown inside a synthesis call, the call throws
  an \<open>Error\<close> whose message depends on the fault only through two tests. For image and
  speech synthesis: the credential message when the fault is an \<open>Error\<close> whose message
  includes \<open>API key\<close>, the generic message of the operation otherwise. For video
  synthesis: the credential message when the message includes \<open>API key\<close>; otherwise the
  key-validation message when it includes \<open>not found\<close>; the generic message otherwise.
  A thrown value that is not an \<open>Error\<close> always gives the generic message.
\<close>

theorem synthesis_fault_messages:
  "(snd (generateImage_try base64Image imagePrompt isEdit imageAnswer) = Inl error1 \<longrightarrow>
      snd (generateImage base64Image imagePrompt isEdit imageAnswer) =
        Inl (JsError
          (if errorMessageIncludes error1 (js ''API key'')
           then js ''The API key is invalid or missing. Please check your configuration.''
           else js ''Failed to generate the image due to an API error. Please try again later.''))) \<and>
   (snd (generateSpeech_try speechPrompt b speechAnswer) = Inl error2 \<longrightarrow>
      snd (generateSpeech speechPrompt b speechAnswer) =
        Inl (JsError
          (if errorMessageIncludes error2 (js ''API key'')
           then js ''The API key is invalid or missing. Please check your configuration.''
           else js ''Failed to generate audio due to an API error.''))) \<and>
   (outcomeOf (generateVideo_try videoImage motionPrompt ratio apiKey svc) = Some (Inl error3) \<longrightarrow>
      outcomeOf (generateVideo videoImage motionPrompt ratio apiKey svc) =
        Some (Inl (JsError
          (if errorMessageIncludes error3 (js ''API key'')
           then js ''The API key is invalid or missing. Please select a valid key and try again.''
           else if errorMessageIncludes error3 (js ''not found'')
           then js ''API Key validation failed. Please re-select your API key and try again.''
           else js ''Failed to generate the video due to an API error. Please try again later.''))))"
proof (intro conjI impI)
  assume "snd (generateImage_try base64Image imagePrompt isEdit imageAnswer) = Inl error1"
  then show "snd (generateImage base64Image imagePrompt isEdit imageAnswer) =
        Inl (JsError
          (if errorMessageIncludes error1 (js ''API key'')
           then js ''The API key is invalid or missing. Please check your configuration.''
           else js ''Failed to generate the image due to an API error. Please try again later.''))"
    by (cases "generateImage_try base64Image imagePrompt isEdit imageAnswer")
      (simp add: generateImage_def imageCatch_def)
next
  assume "snd (generateSpeech_try speechPrompt b speechAnswer) = Inl error2"
  then show "snd (generateSpeech speechPrompt b speechAnswer) =
        Inl (JsError
          (if errorMessageIncludes error2 (js ''API key'')
           then js ''The API key is invalid or missing. Please check your configuration.''
           else js ''Failed to generate audio due to an API error.''))"
    by (cases "generateSpeech_try speechPrompt b speechAnswer")
      (simp add: generateSpeech_def speechCatch_def)
next
  assume "outcomeOf (generateVideo_try videoImage motionPrompt ratio apiKey svc) = Some (Inl error3)"
  then show "outcomeOf (generateVideo videoImage motionPrompt ratio apiKey svc) =
        Some (Inl (JsError
          (if errorMessageIncludes error3 (js ''API key'')
           then js ''The API key is invalid or missing. Please select a valid key and try again.''
           else if errorMessageIncludes error3 (js ''not found'')
           then js ''API Key validation failed. Please re-select your API key and try again.''
           else js ''Failed to generate the video due to an API error. Please try again later.'')))"
    by (simp add: generateVideo_def videoCatch_def Let_def)
qed

lemmas eval_client =
  generateImage_def generateImage_try_def imageCatch_def
  generateSpeech_def generateSpeech_try_def speechCatch_def
  generateVideo_def generateVideo_try_def videoCatch_def
  fileToGenerativePart_def matchDataUrl_def isWordChar_def isLineTerminator_def js_def Let_def

text \<open>
  Against claim C7 as stated: the message \<open>Requested entity was not found.\<close> does not
  include \<open>API key\<close>, yet video synthesis answers it with the key-validation message,
  not with its generic message; image synthesis answers the same fault with its generic
  message; and it answers a thrown value that is not an \<open>Error\<close> with its generic
  message although the message of that value includes \<open>API key\<close>.
\<close>

theorem video_not_found_is_not_generic:
  "\<not> errorMessageIncludes (JsError (js ''Requested entity was not found.'')) (js ''API key'') \<and>
   outcomeOf (generateVideo (js ''data:image/png;base64,AAAA'') (js ''a slow zoom'') Landscape (Some (js ''k''))
       \<lparr>keyUnsetMessage = js ''An API Key must be set when running in a browser'',
        generateVideos = Throws (JsError (js ''Requested entity was not found.'')),
        getVideosOperation = [], fetch = Throws (NonError None)\<rparr>)
     = Some (Inl (JsError (js ''API Key validation failed. Please re-select your API key and try again.''))) \<and>
   snd (generateImage (js ''data:image/png;base64,AAAA'') (js ''a grey backdrop'') False
          (Throws (JsError (js ''Requested entity was not found.''))))
     = Inl (JsError (js ''Failed to generate the image due to an API error. Please try again later.'')) \<and>
   snd (generateImage (js ''data:image/png;base64,AAAA'') (js ''a grey backdrop'') False
          (Throws (NonError (Some (js ''API key expired'')))))
     = Inl (JsError (js ''Failed to generate the image due to an API error. Please try again later.''))"
  by (simp add: eval_client)

text \<open>The amended claim C7 at one fault for each of the three operations.\<close>

theorem synthesis_fault_messages_witness:
  "snd (generateImage_try (js ''data:image/png;base64,AAAA'') (js ''a grey backdrop'') False
          (Throws (JsError (js ''API key not valid. Please pass a valid API key.''))))
     = Inl (JsError (js ''API key not valid. Please pass a valid API key.'')) \<and>
   snd (generateImage (js ''data:image/png;base64,AAAA'') (js ''a grey backdrop'') False
          (Throws (JsError (js ''API key not valid. Please pass a valid API key.''))))
     = Inl (JsError (js ''The API key is invalid or missing. Please check your configuration.'')) \<and>
   snd (generateSpeech_try (js ''hello'') \<lparr>atob = Inr, createObjectURL = map ucast, rangeErrorMessage = []\<rparr>
          (Throws (NonError (Some (js ''API key expired''))))) = Inl (NonError (Some (js ''API key expired''))) \<and>
   snd (generateSpeech (js ''hello'') \<lparr>atob = Inr, createObjectURL = map ucast, rangeErrorMessage = []\<rparr>
          (Throws (NonError (Some (js ''API key expired''))))) = Inl (JsError (js ''Failed to generate audio due to an API error.'')) \<and>
   outcomeOf (generateVideo_try (js ''data:image/png;base64,AAAA'') (js ''a slow zoom'') Landscape (Some (js ''k''))
       \<lparr>keyUnsetMessage = js ''An API Key must be set when running in a browser'',
        generateVideos = Throws (JsError (js ''Requested entity was not found.'')),
        getVideosOperation = [], fetch = Throws (NonError None)\<rparr>)
     = Some (Inl (JsError (js ''Requested entity was not found.''))) \<and>
   outcomeOf (generateVideo (js ''data:image/png;base64,AAAA'') (js ''a slow zoom'') Landscape (Some (js ''k''))
       \<lparr>keyUnsetMessage = js ''An API Key must be set when running in a browser'',
        generateVideos = Throws (JsError (js ''Requested entity was not found.'')),
        getVideosOperation = [], fetch = Throws (NonError None)\<rparr>)
     = Some (Inl (JsError (js ''API Key validation failed. Please re-select your API key and try again.'')))"
proof -
  let ?img = "js ''data:image/png;base64,AAAA''"
  let ?b = "\<lparr>atob = Inr, createObjectURL = map ucast, rangeErrorMessage = []\<rparr>"
  let ?svc = "\<lparr>keyUnsetMessage = js ''An API Key must be set when running in a browser'',
               generateVideos = Throws (JsError (js ''Requested entity was not found.'')),
        getVideosOperation = [], fetch = Throws (NonError None)\<rparr>"
  have 1: "snd (generateImage_try ?img (js ''a grey backdrop'') False
          (Throws (JsError (js ''API key not valid. Please pass a valid API key.''))))
     = Inl (JsError (js ''API key not valid. Please pass a valid API key.''))"
    by (simp add: generateImage_try_def fileToGenerativePart_def matchDataUrl_def isWordChar_def
        isLineTerminator_def js_def Let_def)
  have 2: "snd (generateSpeech_try (js ''hello'') ?b (Throws (NonError (Some (js ''API key expired'')))))
     = Inl (NonError (Some (js ''API key expired'')))"
    by (simp add: generateSpeech_try_def)
  have 3: "outcomeOf (generateVideo_try ?img (js ''a slow zoom'') Landscape (Some (js ''k'')) ?svc)
     = Some (Inl (JsError (js ''Requested entity was not found.'')))"
    by (simp add: generateVideo_try_def fileToGenerativePart_def matchDataUrl_def isWordChar_def
        isLineTerminator_def js_def Let_def)
  have k1: "errorMessageIncludes (JsError (js ''API key not valid. Please pass a valid API key.'')) (js ''API key'')"
    by (simp add: js_def)
  have k3: "\<not> errorMessageIncludes (JsError (js ''Requested entity was not found.'')) (js ''API key'')"
    "errorMessageIncludes (JsError (js ''Requested entity was not found.'')) (js ''not found'')"
    by (simp_all add: js_def)
  from synthesis_fault_messages[of ?img "js ''a grey backdrop''" False
      "Throws (JsError (js ''API key not valid. Please pass a valid API key.''))"
      "JsError (js ''API key not valid. Please pass a valid API key.'')"
      "js ''hello''" ?b "Throws (NonError (Some (js ''API key expired'')))"
      "NonError (Some (js ''API key expired''))"
      ?img "js ''a slow zoom''" Landscape "Some (js ''k'')" ?svc
      "JsError (js ''Requested entity was not found.'')"]
  show ?thesis
    using 1 2 3 k1 k3 by simp
qed

subsection \<open>Progress checkpoints of video synthesis\<close>

lemma progress_generateVideo [simp]:
  "progress (generateVideo i p r k svc) = progress (generateVideo_try i p r k svc)"
  by (simp add: generateVideo_def Let_def split: option.splits sum.splits)

lemma outcomeOf_generateVideo_Inr:
  "outcomeOf (generateVideo i p r k svc) = Some (Inr u) \<longleftrightarrow>
   outcomeOf (generateVideo_try i p r k svc) = Some (Inr u)"
  by (simp add: generateVideo_def Let_def split: option.splits sum.splits)

lemma generateVideo_try_progress:
  "progress (generateVideo_try i p r k svc) \<in>
     {[], [js ''Initiating video generation...''],
      [js ''Initiating video generation...'',
       js ''Generation in progress... This may take several minutes.''],
      [js ''Initiating video generation...'',
       js ''Generation in progress... This may take several minutes.'',
       js ''Downloading generated video...'']}"
  by (simp add: generateVideo_try_def Let_def split: sum.splits outcome.splits option.splits prod.splits)

lemma generateVideo_try_success_progress:
  "outcomeOf (generateVideo_try i p r k svc) = Some (Inr u) \<Longrightarrow>
   progress (generateVideo_try i p r k svc) =
     [js ''Initiating video generation...'',
      js ''Generation in progress... This may take several minutes.'',
      js ''Downloading generated video...'']"
  by (auto simp: generateVideo_try_def Let_def split: sum.splits outcome.splits option.splits prod.splits if_splits)

text \<open>The checkpoints a run has passed, by how far the run got.\<close>

lemma generateVideo_try_cases:
  "(apiKey = None \<or> fileToGenerativePart base64Image = Inl e0 \<longrightarrow>
      progress (generateVideo_try base64Image userPrompt ratio apiKey svc) = []) \<and>
   (apiKey = Some key \<and> fileToGenerativePart base64Image = Inr imgPart \<and>
    generateVideos svc = Throws e1 \<longrightarrow>
      progress (generateVideo_try base64Image userPrompt ratio apiKey svc) =
        [js ''Initiating video generation...'']) \<and>
   (apiKey = Some key \<and> fileToGenerativePart base64Image = Inr imgPart \<and>
    generateVideos svc = Returns operation \<and>
    snd (pollLoop operation (getVideosOperation svc)) = None \<longrightarrow>
      progress (generateVideo_try base64Image userPrompt ratio apiKey svc) =
        [js ''Initiating video generation...'',
         js ''Generation in progress... This may take several minutes.'']) \<and>
   (apiKey = Some key \<and> fileToGenerativePart base64Image = Inr imgPart \<and>
    generateVideos svc = Returns operation \<and>
    snd (pollLoop operation (getVideosOperation svc)) = Some (Inl e2) \<longrightarrow>
      progress (generateVideo_try base64Image userPrompt ratio apiKey svc) =
        [js ''Initiating video generation...'',
         js ''Generation in progress... This may take several minutes.'']) \<and>
   (apiKey = Some key \<and> fileToGenerativePart base64Image = Inr imgPart \<and>
    generateVideos svc = Returns operation \<and>
    snd (pollLoop operation (getVideosOperation svc)) = Some (Inr finished) \<and>
    \<not> truthy (videoUri finished) \<longrightarrow>
      progress (generateVideo_try base64Image userPrompt ratio apiKey svc) =
        [js ''Initiating video generation...'',
         js ''Generation in progress... This may take several minutes.'']) \<and>
   (apiKey = Some key \<and> fileToGenerativePart base64Image = Inr imgPart \<and>
    generateVideos svc = Returns operation \<and>
    snd (pollLoop operation (getVideosOperation svc)) = Some (Inr finished) \<and>
    truthy (videoUri finished) \<longrightarrow>
      progress (generateVideo_try base64Image userPrompt ratio apiKey svc) =
        [js ''Initiating video generation...'',
         js ''Generation in progress... This may take several minutes.'',
         js ''Downloading generated video...''])"
  by (auto simp: generateVideo_try_def Let_def
      split: sum.splits outcome.splits option.splits prod.splits if_splits)

lemma videoProgress_rotate [simp]:
  "videoProgress (rotateLoadingMessage s) = videoProgress s"
  by (simp add: rotateLoadingMessage_def Let_def)

lemma videoProgress_rotations [simp]:
  "videoProgress ((rotateLoadingMessage ^^ n) s) = videoProgress s"
  by (induction n) simp_all

section \<open>Properties of the view-state controller\<close>

subsection \<open>Reset\<close>

lemma clearLoadingInterval_fields [simp]:
  "step (clearLoadingInterval s) = step s"
  "originalImage (clearLoadingInterval s) = originalImage s"
  "generatedImage (clearLoadingInterval s) = generatedImage s"
  "stylePrompt (clearLoadingInterval s) = stylePrompt s"
  "editPrompt (clearLoadingInterval s) = editPrompt s"
  "videoPrompt (clearLoadingInterval s) = videoPrompt s"
  "isLoading (clearLoadingInterval s) = isLoading s"
  "error (clearLoadingInterval s) = error s"
  "isKeySelected (clearLoadingInterval s) = isKeySelected s"
  "generatedVideoUrl (clearLoadingInterval s) = generatedVideoUrl s"
  "generatedAudioUrl (clearLoadingInterval s) = generatedAudioUrl s"
  "hostCalls (clearLoadingInterval s) = hostCalls s"
  "remoteCalls (clearLoadingInterval s) = remoteCalls s"
  "videoProgress (clearLoadingInterval s) = videoProgress s"
  by (simp_all add: clearLoadingInterval_def split: option.splits)

lemma clearLoadingInterval_timer:
  "loadingMessageIntervalRef s = Some h \<Longrightarrow> h \<noteq> 0 \<Longrightarrow>
     h \<notin> activeIntervals (clearLoadingInterval s) \<and>
     loadingMessageIntervalRef (clearLoadingInterval s) = None"
  by (simp add: clearLoadingInterval_def)

text \<open>
  What \<open>handleReset\<close> establishes from every state: the step is \<open>UPLOAD\<close>; the
  uploaded image, the generated image, the style prompt, the edit prompt, the video
  prompt, the error and the loading flag are cleared; and the interval timer whose handle
  is held in \<open>loadingMessageIntervalRef\<close> is no longer active. A timer whose handle the
  ref no longer holds is out of its reach.
\<close>

lemma handleReset_clears:
  "step (handleReset s) = UPLOAD \<and>
   originalImage (handleReset s) = None \<and>
   generatedImage (handleReset s) = None \<and>
   stylePrompt (handleReset s) = [] \<and>
   editPrompt (handleReset s) = [] \<and>
   videoPrompt (handleReset s) = [] \<and>
   error (handleReset s) = None \<and>
   \<not> isLoading (handleReset s) \<and>
   (\<forall>h. loadingMessageIntervalRef s = Some h \<and> h \<noteq> 0 \<longrightarrow>
      h \<notin> activeIntervals (handleReset s) \<and> loadingMessageIntervalRef (handleReset s) = None) \<and>
   (activeIntervals s \<subseteq> trackedTimers s \<longrightarrow> activeIntervals (handleReset s) = {})"
  by (auto simp: handleReset_def clearLoadingInterval_def trackedTimers_def split: option.splits)

lemmas eval_session =
  videoFormState_def hostWithKey_def pollingService_def deliveringService_def
  handleGenerateVideo_def checkApiKey_def requestKey_def handleReset_def
  clearLoadingInterval_def videoFinally_def videoFailed_def onProgress_def initialState_def
  generateVideo_def generateVideo_try_def videoCatch_def
  fileToGenerativePart_def matchDataUrl_def isWordChar_def isLineTerminator_def js_def Let_def

text \<open>
  Claim C3 fails on the code. The claim: from every state, reset returns to \<open>UPLOAD\<close>
  with the images, the prompts, the error and the loading flag cleared, and cancels any
  pending progress-message timer. The handler of the video form does not test
  \<open>isLoading\<close>, sets it only after it has awaited \<open>checkApiKey\<close>, and stores each new
  handle in the one ref without clearing the handle that is there. Two runs of it are
  started from the video form: the first gets the handle 1 and is still polling, the
  second gets the handle 2, returns a video and cancels the timer 2 in its \<open>finally\<close>
  block, which empties the ref. The reset that follows returns to \<open>UPLOAD\<close> and leaves
  the timer 1 active.
\<close>

theorem handleReset_leaves_orphan_timer:
  "activeIntervals (handleGenerateVideo videoFormState hostWithKey 1 0 (Some (js ''k'')) pollingService) = {1} \<and>
   loadingMessageIntervalRef
     (handleGenerateVideo videoFormState hostWithKey 1 0 (Some (js ''k'')) pollingService) = Some 1 \<and>
   activeIntervals
     (handleGenerateVideo
        (handleGenerateVideo videoFormState hostWithKey 1 0 (Some (js ''k'')) pollingService)
        hostWithKey 2 0 (Some (js ''k'')) deliveringService) = {1} \<and>
   loadingMessageIntervalRef
     (handleGenerateVideo
        (handleGenerateVideo videoFormState hostWithKey 1 0 (Some (js ''k'')) pollingService)
        hostWithKey 2 0 (Some (js ''k'')) deliveringService) = None \<and>
   generatedVideoUrl
     (handleGenerateVideo
        (handleGenerateVideo videoFormState hostWithKey 1 0 (Some (js ''k'')) pollingService)
        hostWithKey 2 0 (Some (js ''k'')) deliveringService) = Some (js ''blob:2'') \<and>
   step
     (handleReset
        (handleGenerateVideo
           (handleGenerateVideo videoFormState hostWithKey 1 0 (Some (js ''k'')) pollingService)
           hostWithKey 2 0 (Some (js ''k'')) deliveringService)) = UPLOAD \<and>
   activeIntervals
     (handleReset
        (handleGenerateVideo
           (handleGenerateVideo videoFormState hostWithKey 1 0 (Some (js ''k'')) pollingService)
           hostWithKey 2 0 (Some (js ''k'')) deliveringService)) = {1}"
  by (simp add: eval_session)

text \<open>The timer 1 is among the active timers after the reset.\<close>

theorem handleReset_leaves_orphan_timer_witness:
  "1 \<in> activeIntervals
     (handleReset
        (handleGenerateVideo
           (handleGenerateVideo videoFormState hostWithKey 1 0 (Some (js ''k'')) pollingService)
           hostWithKey 2 0 (Some (js ''k'')) deliveringService))"
  using handleReset_leaves_orphan_timer by simp

subsection \<open>Handlers invoked without their inputs\<close>

text \<open>
  Claim C4. When a required input is empty, generate (no image or no style prompt), edit
  (no generated image or no edit prompt) and animate (no generated image or no motion
  prompt) return the state they were given: no field changes, and in particular the
  logs of remote calls and host queries, the generated image, the error and the loading
  flag stay as they were.
\<close>

theorem empty_input_is_noop:
  "(\<not> truthy (originalImage s) \<or> stylePrompt s = [] \<longrightarrow> handleGenerate s imageAnswer = s) \<and>
   (\<not> truthy (generatedImage s) \<or> editPrompt s = [] \<longrightarrow> handleEdit s imageAnswer = s) \<and>
   (\<not> truthy (generatedImage s) \<or> videoPrompt s = [] \<longrightarrow>
      handleGenerateVideo s w handle ticks apiKey svc = s)"
  by (simp add: handleGenerate_def handleEdit_def handleGenerateVideo_def)

text \<open>Claim C4 at the initial state and at states that hold an image and no prompt.\<close>

theorem empty_input_is_noop_witness:
  "\<not> truthy (originalImage initialState) \<and>
   handleGenerate initialState (Returns (Parts [])) = initialState \<and>
   editPrompt (initialState\<lparr>step := EDIT, generatedImage := Some (js ''data:image/png;base64,AAAA'')\<rparr>) = [] \<and>
   handleEdit (initialState\<lparr>step := EDIT, generatedImage := Some (js ''data:image/png;base64,AAAA'')\<rparr>)
       (Returns (Parts []))
     = initialState\<lparr>step := EDIT, generatedImage := Some (js ''data:image/png;base64,AAAA'')\<rparr> \<and>
   videoPrompt (initialState\<lparr>step := VIDEO, generatedImage := Some (js ''data:image/png;base64,AAAA'')\<rparr>) = [] \<and>
   handleGenerateVideo
       (initialState\<lparr>step := VIDEO, generatedImage := Some (js ''data:image/png;base64,AAAA'')\<rparr>)
       \<lparr>aistudioOf = Some \<lparr>hasSelectedApiKey = Returns True, openSelectKey = Returns ()\<rparr>,
        typeErrorMessage = []\<rparr>
       1 0 (Some (js ''k''))
       \<lparr>keyUnsetMessage = js ''An API Key must be set when running in a browser'',
        generateVideos = Throws (NonError None), getVideosOperation = [], fetch = Throws (NonError None)\<rparr>
     = initialState\<lparr>step := VIDEO, generatedImage := Some (js ''data:image/png;base64,AAAA'')\<rparr>"
proof -
  let ?e = "initialState\<lparr>step := EDIT, generatedImage := Some (js ''data:image/png;base64,AAAA'')\<rparr>"
  let ?v = "initialState\<lparr>step := VIDEO, generatedImage := Some (js ''data:image/png;base64,AAAA'')\<rparr>"
  let ?w = "\<lparr>aistudioOf = Some \<lparr>hasSelectedApiKey = Returns True, openSelectKey = Returns ()\<rparr>,
        typeErrorMessage = []\<rparr>"
  let ?svc = "\<lparr>keyUnsetMessage = js ''An API Key must be set when running in a browser'',
               generateVideos = Throws (NonError None), getVideosOperation = [], fetch = Throws (NonError None)\<rparr>"
  have h1: "\<not> truthy (originalImage initialState)"
    and h2: "editPrompt ?e = []" and h3: "videoPrompt ?v = []"
    by (simp_all add: initialState_def)
  from h1 h2 h3
    empty_input_is_noop[of initialState "Returns (Parts [])"]
    empty_input_is_noop[of ?e "Returns (Parts [])"]
    empty_input_is_noop[of ?v _ ?w 1 0 "Some (js ''k'')" ?svc]
  show ?thesis by blast
qed

subsection \<open>What the video handler leaves alone\<close>

lemma rotate_fields [simp]:
  "generatedImage (rotateLoadingMessage s) = generatedImage s"
  "hostCalls (rotateLoadingMessage s) = hostCalls s"
  by (simp_all add: rotateLoadingMessage_def Let_def)

lemma rotations_fields [simp]:
  "generatedImage ((rotateLoadingMessage ^^ n) s) = generatedImage s"
  "hostCalls ((rotateLoadingMessage ^^ n) s) = hostCalls s"
  by (induction n) simp_all

lemma onProgress_fold_fields [simp]:
  "generatedImage (foldl onProgress s ms) = generatedImage s"
  "hostCalls (foldl onProgress s ms) = hostCalls s"
  "videoProgress (foldl onProgress s ms) = videoProgress s @ ms"
  by (induction ms arbitrary: s) (simp_all add: onProgress_def)

lemma videoFailed_fields [simp]:
  "generatedImage (videoFailed s e) = generatedImage s"
  "hostCalls (videoFailed s e) = hostCalls s"
  "videoProgress (videoFailed s e) = videoProgress s"
  by (simp_all add: videoFailed_def)

lemma videoFinally_fields [simp]:
  "generatedImage (videoFinally s) = generatedImage s"
  "hostCalls (videoFinally s) = hostCalls s"
  "videoProgress (videoFinally s) = videoProgress s"
  by (simp_all add: videoFinally_def)

lemma checkApiKey_fields:
  "generatedImage (fst (checkApiKey s w)) = generatedImage s"
  "videoProgress (fst (checkApiKey s w)) = videoProgress s"
  "hostCalls (fst (checkApiKey s w)) =
     hostCalls s @ (case aistudioOf w of None \<Rightarrow> [] | Some host \<Rightarrow> [HasSelectedApiKey])"
  by (simp_all add: checkApiKey_def split: option.splits outcome.splits)

lemma requestKey_fields:
  "requestKey s w = Inr s' \<Longrightarrow>
     generatedImage s' = generatedImage s \<and> videoProgress s' = videoProgress s \<and>
     prefix (hostCalls s) (hostCalls s')"
  "requestKey s w = Inl (s', e) \<Longrightarrow>
     generatedImage s' = generatedImage s \<and> videoProgress s' = videoProgress s \<and>
     prefix (hostCalls s) (hostCalls s')"
  by (auto simp: requestKey_def split: option.splits outcome.splits)

lemma handleGenerateVideo_generatedImage:
  "generatedImage (handleGenerateVideo s w handle ticks apiKey svc) = generatedImage s"
  using checkApiKey_fields(1)[of s w]
  by (auto simp: handleGenerateVideo_def Let_def
      split: option.splits sum.splits prod.splits if_splits dest: requestKey_fields)

lemma handleGenerateVideo_videoProgress:
  "videoProgress (handleGenerateVideo s w handle ticks apiKey svc) =
   videoProgress (handleGenerateVideo s w handle 0 apiKey svc)"
  by (auto simp: handleGenerateVideo_def Let_def split: option.splits sum.splits prod.splits)

lemma handleGenerateVideo_hostCalls:
  assumes "truthy (generatedImage s)" "videoPrompt s \<noteq> []" "aistudioOf w = Some host"
  shows "prefix (hostCalls s @ [HasSelectedApiKey])
           (hostCalls (handleGenerateVideo s w handle ticks apiKey svc))"
proof -
  from assms(1) obtain img where "generatedImage s = Some img"
    by (cases "generatedImage s") simp_all
  then show ?thesis
    using assms checkApiKey_fields(3)[of s w]
    by (auto simp: handleGenerateVideo_def Let_def
        split: option.splits sum.splits prod.splits if_splits dest: requestKey_fields)
qed

lemma timers_rotate [simp]:
  "activeIntervals (rotateLoadingMessage s) = activeIntervals s"
  "loadingMessageIntervalRef (rotateLoadingMessage s) = loadingMessageIntervalRef s"
  by (simp_all add: rotateLoadingMessage_def Let_def)

lemma timers_rotations [simp]:
  "activeIntervals ((rotateLoadingMessage ^^ n) s) = activeIntervals s"
  "loadingMessageIntervalRef ((rotateLoadingMessage ^^ n) s) = loadingMessageIntervalRef s"
  by (induction n) simp_all

lemma timers_onProgress [simp]:
  "activeIntervals (foldl onProgress s ms) = activeIntervals s"
  "loadingMessageIntervalRef (foldl onProgress s ms) = loadingMessageIntervalRef s"
  by (induction ms arbitrary: s) (simp_all add: onProgress_def)

lemma timers_checkApiKey:
  "activeIntervals (fst (checkApiKey s w)) = activeIntervals s"
  "loadingMessageIntervalRef (fst (checkApiKey s w)) = loadingMessageIntervalRef s"
  by (simp_all add: checkApiKey_def split: option.splits outcome.splits)

lemma timers_requestKey:
  "requestKey s w = Inr s' \<Longrightarrow>
     activeIntervals s' = activeIntervals s \<and> loadingMessageIntervalRef s' = loadingMessageIntervalRef s"
  "requestKey s w = Inl (s', e) \<Longrightarrow>
     activeIntervals s' = activeIntervals s \<and> loadingMessageIntervalRef s' = loadingMessageIntervalRef s"
  by (auto simp: requestKey_def split: option.splits outcome.splits)

text \<open>
  A single run of the video handler that starts with no active timer and gets a handle
  above \<open>0\<close> ends, or waits, in a state whose active timers are tracked. A run that
  starts while another one waits does not: it overwrites the handle in the ref.
\<close>

lemma handleGenerateVideo_tracks_timer:
  assumes "activeIntervals s = {}" "handle \<noteq> 0"
  shows "activeIntervals (handleGenerateVideo s w handle ticks apiKey svc)
           \<subseteq> trackedTimers (handleGenerateVideo s w handle ticks apiKey svc)"
  using assms timers_checkApiKey[of s w]
  by (auto simp: handleGenerateVideo_def Let_def videoFinally_def videoFailed_def
      clearLoadingInterval_def trackedTimers_def
      split: option.splits sum.splits prod.splits if_splits dest: timers_requestKey)

subsection \<open>The generated image\<close>

lemma handler_generatedImage [simp]:
  "generatedImage (handleImageUpload s base64Image) = None"
  "generatedImage (handleReset s) = None"
  "generatedImage (enterVideoStep s w) = generatedImage s"
  "generatedImage (handleGenerateVoiceGuide s b speechAnswer) = generatedImage s"
  by (simp_all add: handleImageUpload_def handleReset_def enterVideoStep_def checkApiKey_fields
      handleGenerateVoiceGuide_def Let_def split: prod.splits sum.splits)

text \<open>
  Claim C5. The state holds the generated image in one cell, \<open>generatedImage\<close>, of type
  \<open>string | null\<close>, so it never holds two. A successful generation puts its result into
  the cell and moves to the step \<open>EDIT\<close>; a successful edit puts its result in the place
  of the image it edited; a failed generation or edit leaves the cell as it was; upload and
  reset empty it; the voice guide, entering the video step and video generation leave it
  as it was.
\<close>

theorem artifact_slot_replaced:
  "(originalImage s = Some img \<and> img \<noteq> [] \<and> stylePrompt s \<noteq> [] \<and>
      snd (generateImage img (stylePrompt s) False answer) = Inr result \<longrightarrow>
        generatedImage (handleGenerate s answer) = Some result \<and>
        step (handleGenerate s answer) = EDIT) \<and>
   (generatedImage s = Some old \<and> old \<noteq> [] \<and> editPrompt s \<noteq> [] \<and>
      snd (generateImage old (editPrompt s) True answer) = Inr result \<longrightarrow>
        generatedImage (handleEdit s answer) = Some result \<and>
        step (handleEdit s answer) = step s) \<and>
   (originalImage s = Some img \<and> snd (generateImage img (stylePrompt s) False answer) = Inl e \<longrightarrow>
        generatedImage (handleGenerate s answer) = generatedImage s) \<and>
   (generatedImage s = Some old \<and> snd (generateImage old (editPrompt s) True answer) = Inl e \<longrightarrow>
        generatedImage (handleEdit s answer) = generatedImage s) \<and>
   generatedImage (handleImageUpload s base64Image) = None \<and>
   generatedImage (handleReset s) = None \<and>
   generatedImage (handleGenerateVoiceGuide s b speechAnswer) = generatedImage s \<and>
   generatedImage (enterVideoStep s w) = generatedImage s \<and>
   generatedImage (handleGenerateVideo s w handle ticks apiKey svc) = generatedImage s"
  by (auto simp: handleGenerate_def handleEdit_def handleEdit_atCall_def Let_def
      handleGenerateVideo_generatedImage split: prod.splits sum.splits)

lemmas eval_image =
  generateImage_def generateImage_try_def imageCatch_def
  fileToGenerativePart_def matchDataUrl_def isWordChar_def isLineTerminator_def js_def Let_def

text \<open>Claim C5 at a generation, an edit that succeeds and an edit that fails.\<close>

theorem artifact_slot_replaced_witness:
  "generatedImage
     (handleGenerate
        (initialState\<lparr>step := STYLE, originalImage := Some (js ''data:image/png;base64,AAAA''),
           stylePrompt := js ''grey''\<rparr>)
        (Returns (Parts [\<lparr>inlineData = Some \<lparr>blobData = Some (js ''BBBB''),
                                             blobMimeType = Some (js ''image/png'')\<rparr>,
                         partText = None\<rparr>])))
     = Some (js ''data:image/png;base64,BBBB'') \<and>
   generatedImage
     (handleEdit
        (initialState\<lparr>step := EDIT, originalImage := Some (js ''data:image/png;base64,AAAA''),
           generatedImage := Some (js ''data:image/png;base64,BBBB''), editPrompt := js ''navy''\<rparr>)
        (Returns (Parts [\<lparr>inlineData = Some \<lparr>blobData = Some (js ''CCCC''),
                                             blobMimeType = Some (js ''image/png'')\<rparr>,
                         partText = None\<rparr>])))
     = Some (js ''data:image/png;base64,CCCC'') \<and>
   generatedImage
     (handleEdit
        (initialState\<lparr>step := EDIT, originalImage := Some (js ''data:image/png;base64,AAAA''),
           generatedImage := Some (js ''data:image/png;base64,BBBB''), editPrompt := js ''navy''\<rparr>)
        (Throws (NonError None)))
     = Some (js ''data:image/png;base64,BBBB'')"
proof -
  let ?s1 = "initialState\<lparr>step := STYLE, originalImage := Some (js ''data:image/png;base64,AAAA''),
           stylePrompt := js ''grey''\<rparr>"
  let ?a1 = "Returns (Parts [\<lparr>inlineData = Some \<lparr>blobData = Some (js ''BBBB''),
                                             blobMimeType = Some (js ''image/png'')\<rparr>,
                         partText = None\<rparr>])"
  let ?s2 = "initialState\<lparr>step := EDIT, originalImage := Some (js ''data:image/png;base64,AAAA''),
           generatedImage := Some (js ''data:image/png;base64,BBBB''), editPrompt := js ''navy''\<rparr>"
  let ?a2 = "Returns (Parts [\<lparr>inlineData = Some \<lparr>blobData = Some (js ''CCCC''),
                                             blobMimeType = Some (js ''image/png'')\<rparr>,
                         partText = None\<rparr>])"
  have h1: "originalImage ?s1 = Some (js ''data:image/png;base64,AAAA'') \<and>
      js ''data:image/png;base64,AAAA'' \<noteq> [] \<and> stylePrompt ?s1 \<noteq> [] \<and>
      snd (generateImage (js ''data:image/png;base64,AAAA'') (stylePrompt ?s1) False ?a1)
        = Inr (js ''data:image/png;base64,BBBB'')"
    by (simp add: eval_image initialState_def)
  have h2: "generatedImage ?s2 = Some (js ''data:image/png;base64,BBBB'') \<and>
      js ''data:image/png;base64,BBBB'' \<noteq> [] \<and> editPrompt ?s2 \<noteq> [] \<and>
      snd (generateImage (js ''data:image/png;base64,BBBB'') (editPrompt ?s2) True ?a2)
        = Inr (js ''data:image/png;base64,CCCC'')"
    by (simp add: eval_image initialState_def)
  have h3: "generatedImage ?s2 = Some (js ''data:image/png;base64,BBBB'') \<and>
      snd (generateImage (js ''data:image/png;base64,BBBB'') (editPrompt ?s2) True (Throws (NonError None)))
        = Inl (JsError (js ''Failed to generate the image due to an API error. Please try again later.''))"
    by (simp add: eval_image initialState_def)
  have g3: "generatedImage ?s2 = Some (js ''data:image/png;base64,BBBB'')"
    by (simp add: initialState_def)
  from h1 artifact_slot_replaced[of ?s1 "js ''data:image/png;base64,AAAA''" ?a1 "js ''data:image/png;base64,BBBB''"]
  have c1: "generatedImage (handleGenerate ?s1 ?a1) = Some (js ''data:image/png;base64,BBBB'')"
    by blast
  from h2 artifact_slot_replaced[of ?s2 _ ?a2 "js ''data:image/png;base64,CCCC''" "js ''data:image/png;base64,BBBB''"]
  have c2: "generatedImage (handleEdit ?s2 ?a2) = Some (js ''data:image/png;base64,CCCC'')"
    by blast
  from h3 artifact_slot_replaced[of ?s2 _ "Throws (NonError None)" _ "js ''data:image/png;base64,BBBB''"
      "JsError (js ''Failed to generate the image due to an API error. Please try again later.'')"]
  have c3: "generatedImage (handleEdit ?s2 (Throws (NonError None))) = generatedImage ?s2"
    by blast
  show ?thesis using c1 c2 c3 g3 by simp
qed

subsection \<open>Edits and the voice guide\<close>

text \<open>
  Claim C10. An edit with a generated image and a non-empty edit prompt has cleared the
  audio URL in the state in which it calls \<open>generateImage\<close>, before any remote call of
  the edit is issued, and the audio URL is still cleared when the edit has ended, whether
  the remote call succeeded or failed.
\<close>

theorem handleEdit_clears_audio:
  "truthy (generatedImage s) \<and> editPrompt s \<noteq> [] \<longrightarrow>
     generatedAudioUrl (handleEdit_atCall s) = None \<and>
     remoteCalls (handleEdit_atCall s) = remoteCalls s \<and>
     generatedAudioUrl (handleEdit s answer) = None"
  by (auto simp: handleEdit_def handleEdit_atCall_def Let_def split: option.splits prod.splits sum.splits)

text \<open>Claim C10 at a state with an audio URL attached, for a success and for a fault.\<close>

theorem handleEdit_clears_audio_witness:
  "truthy (generatedImage
     (initialState\<lparr>step := EDIT, generatedImage := Some (js ''data:image/png;base64,AAAA''),
        editPrompt := js ''navy'', generatedAudioUrl := Some (js ''blob:audio'')\<rparr>)) \<and>
   generatedAudioUrl
     (handleEdit
        (initialState\<lparr>step := EDIT, generatedImage := Some (js ''data:image/png;base64,AAAA''),
           editPrompt := js ''navy'', generatedAudioUrl := Some (js ''blob:audio'')\<rparr>)
        (Returns (Parts [\<lparr>inlineData = Some \<lparr>blobData = Some (js ''CCCC''),
                                             blobMimeType = Some (js ''image/png'')\<rparr>,
                         partText = None\<rparr>]))) = None \<and>
   generatedAudioUrl
     (handleEdit
        (initialState\<lparr>step := EDIT, generatedImage := Some (js ''data:image/png;base64,AAAA''),
           editPrompt := js ''navy'', generatedAudioUrl := Some (js ''blob:audio'')\<rparr>)
        (Throws (JsError (js ''Failed to fetch'')))) = None"
proof -
  let ?s = "initialState\<lparr>step := EDIT, generatedImage := Some (js ''data:image/png;base64,AAAA''),
        editPrompt := js ''navy'', generatedAudioUrl := Some (js ''blob:audio'')\<rparr>"
  have h: "truthy (generatedImage ?s) \<and> editPrompt ?s \<noteq> []"
    by (simp add: initialState_def js_def)
  from h handleEdit_clears_audio[of ?s "Returns (Parts [\<lparr>inlineData = Some \<lparr>blobData = Some (js ''CCCC''),
                                             blobMimeType = Some (js ''image/png'')\<rparr>,
                         partText = None\<rparr>])"]
    handleEdit_clears_audio[of ?s "Throws (JsError (js ''Failed to fetch''))"]
  show ?thesis by blast
qed

subsection \<open>Progress of a video run\<close>

text \<open>
  Claim C8, as amended. The messages that a run of \<open>generateVideo\<close> passes to
  \<open>onProgress\<close> are an initial part of three fixed checkpoints, in this order: the
  request is initiated, generation is in progress, the video is downloaded. A run passes
  none of them when the key is not set or the source image is not a data URL of the
  expected shape; the first when the submission fails; the first two when a poll fails,
  when polling has not ended, or when the job ends without a video URI; all three when
  the job ends with a video URI, and so in every run that returns a video. The callback of
  the five-second interval never invokes \<open>onProgress\<close>: it leaves the lines written by
  \<open>onProgress\<close> as they are, and the lines a run of the video handler has written do
  not depend on how often the interval fired.
\<close>

theorem onProgress_checkpoints:
  "prefix (progress (generateVideo base64Image userPrompt ratio apiKey svc))
     [js ''Initiating video generation...'',
      js ''Generation in progress... This may take several minutes.'',
      js ''Downloading generated video...''] \<and>
   (outcomeOf (generateVideo base64Image userPrompt ratio apiKey svc) = Some (Inr url) \<longrightarrow>
      progress (generateVideo base64Image userPrompt ratio apiKey svc) =
        [js ''Initiating video generation...'',
         js ''Generation in progress... This may take several minutes.'',
         js ''Downloading generated video...'']) \<and>
   (apiKey = None \<or> fileToGenerativePart base64Image = Inl e0 \<longrightarrow>
      progress (generateVideo base64Image userPrompt ratio apiKey svc) = []) \<and>
   (apiKey = Some key \<and> fileToGenerativePart base64Image = Inr imgPart \<and>
    generateVideos svc = Throws e1 \<longrightarrow>
      progress (generateVideo base64Image userPrompt ratio apiKey svc) =
        [js ''Initiating video generation...'']) \<and>
   (apiKey = Some key \<and> fileToGenerativePart base64Image = Inr imgPart \<and>
    generateVideos svc = Returns operation \<and>
    snd (pollLoop operation (getVideosOperation svc)) = None \<longrightarrow>
      progress (generateVideo base64Image userPrompt ratio apiKey svc) =
        [js ''Initiating video generation...'',
         js ''Generation in progress... This may take several minutes.'']) \<and>
   (apiKey = Some key \<and> fileToGenerativePart base64Image = Inr imgPart \<and>
    generateVideos svc = Returns operation \<and>
    snd (pollLoop operation (getVideosOperation svc)) = Some (Inl e2) \<longrightarrow>
      progress (generateVideo base64Image userPrompt ratio apiKey svc) =
        [js ''Initiating video generation...'',
         js ''Generation in progress... This may take several minutes.'']) \<and>
   (apiKey = Some key \<and> fileToGenerativePart base64Image = Inr imgPart \<and>
    generateVideos svc = Returns operation \<and>
    snd (pollLoop operation (getVideosOperation svc)) = Some (Inr finished) \<and>
    \<not> truthy (videoUri finished) \<longrightarrow>
      progress (generateVideo base64Image userPrompt ratio apiKey svc) =
        [js ''Initiating video generation...'',
         js ''Generation in progress... This may take several minutes.'']) \<and>
   (apiKey = Some key \<and> fileToGenerativePart base64Image = Inr imgPart \<and>
    generateVideos svc = Returns operation \<and>
    snd (pollLoop operation (getVideosOperation svc)) = Some (Inr finished) \<and>
    truthy (videoUri finished) \<longrightarrow>
      progress (generateVideo base64Image userPrompt ratio apiKey svc) =
        [js ''Initiating video generation...'',
         js ''Generation in progress... This may take several minutes.'',
         js ''Downloading generated video...'']) \<and>
   videoProgress (rotateLoadingMessage s) = videoProgress s \<and>
   videoProgress (handleGenerateVideo s w handle ticks apiKey svc) =
     videoProgress (handleGenerateVideo s w handle 0 apiKey svc)"
proof -
  have a: "prefix (progress (generateVideo base64Image userPrompt ratio apiKey svc))
     [js ''Initiating video generation...'',
      js ''Generation in progress... This may take several minutes.'',
      js ''Downloading generated video...'']"
    using generateVideo_try_progress[of base64Image userPrompt ratio apiKey svc] by auto
  have b: "outcomeOf (generateVideo base64Image userPrompt ratio apiKey svc) = Some (Inr url) \<longrightarrow>
      progress (generateVideo base64Image userPrompt ratio apiKey svc) =
        [js ''Initiating video generation...'',
         js ''Generation in progress... This may take several minutes.'',
         js ''Downloading generated video...'']"
    by (simp add: outcomeOf_generateVideo_Inr generateVideo_try_success_progress)
  have c: "videoProgress (rotateLoadingMessage s) = videoProgress s" by simp
  have d: "videoProgress (handleGenerateVideo s w handle ticks apiKey svc) =
     videoProgress (handleGenerateVideo s w handle 0 apiKey svc)"
    by (rule handleGenerateVideo_videoProgress)
  show ?thesis
    using a b c d
      generateVideo_try_cases[of apiKey base64Image e0 userPrompt ratio svc key imgPart e1
        operation e2 finished]
    by (simp only: progress_generateVideo) blast
qed

lemmas eval_video =
  generateVideo_def generateVideo_try_def videoCatch_def
  fileToGenerativePart_def matchDataUrl_def isWordChar_def isLineTerminator_def js_def Let_def

text \<open>
  Against claim C8 as stated: a run that returns a video invokes \<open>onProgress\<close> three
  times, the third time with \<open>Downloading generated video...\<close>; a run whose submission
  fails invokes it once.
\<close>

theorem onProgress_third_checkpoint:
  "progress (generateVideo (js ''data:image/png;base64,AAAA'') (js ''a slow zoom'') Landscape (Some (js ''k''))
      \<lparr>keyUnsetMessage = js ''An API Key must be set when running in a browser'',
       generateVideos = Returns \<lparr>isDone = False, videoUri = None\<rparr>,
       getVideosOperation = [Returns \<lparr>isDone = True, videoUri = Some (js ''https://v/1?alt=media'')\<rparr>],
       fetch = Returns \<lparr>ok = True, statusText = js ''OK'', bodyUrl = Returns (js ''blob:1'')\<rparr>\<rparr>)
     = [js ''Initiating video generation...'',
        js ''Generation in progress... This may take several minutes.'',
        js ''Downloading generated video...''] \<and>
   progress (generateVideo (js ''data:image/png;base64,AAAA'') (js ''a slow zoom'') Landscape (Some (js ''k''))
      \<lparr>keyUnsetMessage = js ''An API Key must be set when running in a browser'',
       generateVideos = Throws (JsError (js ''Failed to fetch'')),
       getVideosOperation = [], fetch = Throws (NonError None)\<rparr>)
     = [js ''Initiating video generation...'']"
  by (simp add: eval_video)

lemmas eval_services =
  refusingService_def pollingService_def failingPollService_def emptyResultService_def
  brokenDownloadService_def deliveringService_def

lemma example_image:
  "fileToGenerativePart (js ''data:image/png;base64,AAAA'')
     = Inr \<lparr>data = js ''AAAA'', mimeType = js ''image/png''\<rparr>"
  "fileToGenerativePart (js ''blob:3'') = Inl (JsError (js ''Invalid base64 string format''))"
  by (simp_all add: fileToGenerativePart_def matchDataUrl_def isWordChar_def isLineTerminator_def js_def)

text \<open>The amended claim C8 at one run for each way a run can go.\<close>

theorem onProgress_checkpoints_witness:
  "progress (generateVideo (js ''data:image/png;base64,AAAA'') (js ''a slow zoom'') Landscape None
      deliveringService) = [] \<and>
   progress (generateVideo (js ''blob:3'') (js ''a slow zoom'') Landscape (Some (js ''k''))
      deliveringService) = [] \<and>
   progress (generateVideo (js ''data:image/png;base64,AAAA'') (js ''a slow zoom'') Landscape (Some (js ''k''))
      refusingService) = [js ''Initiating video generation...''] \<and>
   progress (generateVideo (js ''data:image/png;base64,AAAA'') (js ''a slow zoom'') Landscape (Some (js ''k''))
      pollingService)
     = [js ''Initiating video generation...'',
        js ''Generation in progress... This may take several minutes.''] \<and>
   progress (generateVideo (js ''data:image/png;base64,AAAA'') (js ''a slow zoom'') Landscape (Some (js ''k''))
      failingPollService)
     = [js ''Initiating video generation...'',
        js ''Generation in progress... This may take several minutes.''] \<and>
   progress (generateVideo (js ''data:image/png;base64,AAAA'') (js ''a slow zoom'') Landscape (Some (js ''k''))
      emptyResultService)
     = [js ''Initiating video generation...'',
        js ''Generation in progress... This may take several minutes.''] \<and>
   progress (generateVideo (js ''data:image/png;base64,AAAA'') (js ''a slow zoom'') Landscape (Some (js ''k''))
      brokenDownloadService)
     = [js ''Initiating video generation...'',
        js ''Generation in progress... This may take several minutes.'',
        js ''Downloading generated video...''] \<and>
   outcomeOf (generateVideo (js ''data:image/png;base64,AAAA'') (js ''a slow zoom'') Landscape (Some (js ''k''))
      deliveringService) = Some (Inr (js ''blob:2'')) \<and>
   progress (generateVideo (js ''data:image/png;base64,AAAA'') (js ''a slow zoom'') Landscape (Some (js ''k''))
      deliveringService)
     = [js ''Initiating video generation...'',
        js ''Generation in progress... This may take several minutes.'',
        js ''Downloading generated video...'']"
proof -
  let ?img = "js ''data:image/png;base64,AAAA''"
  let ?part = "\<lparr>data = js ''AAAA'', mimeType = js ''image/png''\<rparr>"
  let ?p = "js ''a slow zoom''"
  let ?k = "Some (js ''k'')"
  let ?op = "\<lparr>isDone = False, videoUri = None\<rparr>"
  note T = onProgress_checkpoints[where userPrompt = ?p and ratio = Landscape]
  have 1: "progress (generateVideo ?img ?p Landscape None deliveringService) = []"
    using T[where base64Image = ?img and apiKey = None and svc = deliveringService] by blast
  have 2: "progress (generateVideo (js ''blob:3'') ?p Landscape ?k deliveringService) = []"
    using T[where base64Image = "js ''blob:3''" and apiKey = ?k and svc = deliveringService
        and ?e0.0 = "JsError (js ''Invalid base64 string format'')"] example_image(2)
    by blast
  have 3: "progress (generateVideo ?img ?p Landscape ?k refusingService)
      = [js ''Initiating video generation...'']"
  proof -
    have "generateVideos refusingService = Throws (JsError (js ''Failed to fetch''))"
      by (simp add: refusingService_def)
    then show ?thesis
      using T[where base64Image = ?img and apiKey = ?k and svc = refusingService
          and key = "js ''k''" and imgPart = ?part and ?e1.0 = "JsError (js ''Failed to fetch'')"]
        example_image(1)
      by blast
  qed
  have 4: "progress (generateVideo ?img ?p Landscape ?k pollingService)
      = [js ''Initiating video generation...'',
         js ''Generation in progress... This may take several minutes.'']"
  proof -
    have "generateVideos pollingService = Returns ?op"
      "snd (pollLoop ?op (getVideosOperation pollingService)) = None"
      by (simp_all add: pollingService_def)
    then show ?thesis
      using T[where base64Image = ?img and apiKey = ?k and svc = pollingService
          and key = "js ''k''" and imgPart = ?part and operation = ?op]
        example_image(1)
      by blast
  qed
  have 5: "progress (generateVideo ?img ?p Landscape ?k failingPollService)
      = [js ''Initiating video generation...'',
         js ''Generation in progress... This may take several minutes.'']"
  proof -
    have "generateVideos failingPollService = Returns ?op"
      "snd (pollLoop ?op (getVideosOperation failingPollService))
         = Some (Inl (JsError (js ''Failed to fetch'')))"
      by (simp_all add: failingPollService_def)
    then show ?thesis
      using T[where base64Image = ?img and apiKey = ?k and svc = failingPollService
          and key = "js ''k''" and imgPart = ?part and operation = ?op
          and ?e2.0 = "JsError (js ''Failed to fetch'')"]
        example_image(1)
      by blast
  qed
  have 6: "progress (generateVideo ?img ?p Landscape ?k emptyResultService)
      = [js ''Initiating video generation...'',
         js ''Generation in progress... This may take several minutes.'']"
  proof -
    have "generateVideos emptyResultService = Returns ?op"
      "snd (pollLoop ?op (getVideosOperation emptyResultService))
         = Some (Inr \<lparr>isDone = True, videoUri = None\<rparr>)"
      "\<not> truthy (videoUri \<lparr>isDone = True, videoUri = None\<rparr>)"
      by (simp_all add: emptyResultService_def)
    then show ?thesis
      using T[where base64Image = ?img and apiKey = ?k and svc = emptyResultService
          and key = "js ''k''" and imgPart = ?part and operation = ?op
          and finished = "\<lparr>isDone = True, videoUri = None\<rparr>"]
        example_image(1)
      by blast
  qed
  have 7: "progress (generateVideo ?img ?p Landscape ?k brokenDownloadService)
      = [js ''Initiating video generation...'',
         js ''Generation in progress... This may take several minutes.'',
         js ''Downloading generated video...'']"
  proof -
    have "generateVideos brokenDownloadService = Returns ?op"
      "snd (pollLoop ?op (getVideosOperation brokenDownloadService))
         = Some (Inr \<lparr>isDone = True, videoUri = Some (js ''https://v/2?alt=media'')\<rparr>)"
      "truthy (videoUri \<lparr>isDone = True, videoUri = Some (js ''https://v/2?alt=media'')\<rparr>)"
      by (simp_all add: brokenDownloadService_def js_def)
    then show ?thesis
      using T[where base64Image = ?img and apiKey = ?k and svc = brokenDownloadService
          and key = "js ''k''" and imgPart = ?part and operation = ?op
          and finished = "\<lparr>isDone = True, videoUri = Some (js ''https://v/2?alt=media'')\<rparr>"]
        example_image(1)
      by blast
  qed
  have 8: "outcomeOf (generateVideo ?img ?p Landscape ?k deliveringService) = Some (Inr (js ''blob:2''))"
    by (simp add: deliveringService_def generateVideo_def generateVideo_try_def
        fileToGenerativePart_def matchDataUrl_def isWordChar_def isLineTerminator_def js_def Let_def)
  have 9: "progress (generateVideo ?img ?p Landscape ?k deliveringService)
      = [js ''Initiating video generation...'',
         js ''Generation in progress... This may take several minutes.'',
         js ''Downloading generated video...'']"
    using 8 T[where base64Image = ?img and apiKey = ?k and svc = deliveringService
        and url = "js ''blob:2''"]
    by blast
  show ?thesis
    using 1 2 3 4 5 6 7 8 9 by simp
qed

lemmas eval_app =
  handleGenerateVideo_def checkApiKey_def requestKey_def enterVideoStep_def handleReset_def
  clearLoadingInterval_def videoFinally_def videoFailed_def onProgress_def initialState_def

subsection \<open>The credential gate\<close>

text \<open>
  Claim C9, as amended. When the host capability is present, \<open>hasSelectedApiKey\<close> is
  queried each time the view enters the video step and at the start of each video
  generation with a generated image and a non-empty motion prompt, whatever the value of
  \<open>isKeySelected\<close>; \<open>handleReset\<close> leaves \<open>isKeySelected\<close> as it is and issues no
  host query.
\<close>

theorem credential_queries:
  "(aistudioOf w = Some host \<longrightarrow>
      hostCalls (enterVideoStep s w) = hostCalls s @ [HasSelectedApiKey]) \<and>
   (aistudioOf w = Some host \<and> truthy (generatedImage s) \<and> videoPrompt s \<noteq> [] \<longrightarrow>
      prefix (hostCalls s @ [HasSelectedApiKey])
        (hostCalls (handleGenerateVideo s w handle ticks apiKey svc))) \<and>
   isKeySelected (handleReset s) = isKeySelected s \<and>
   hostCalls (handleReset s) = hostCalls s"
  by (auto simp: enterVideoStep_def checkApiKey_fields handleReset_def
      intro: handleGenerateVideo_hostCalls)

text \<open>The amended claim C9 at a state in which the key is already selected.\<close>

theorem credential_queries_witness:
  "isKeySelected (initialState\<lparr>step := VIDEO, generatedImage := Some (js ''data:image/png;base64,AAAA''),
           videoPrompt := js ''a slow zoom'', isKeySelected := True,
           hostCalls := [HasSelectedApiKey]\<rparr>) \<and>
   hostCalls
     (enterVideoStep
        (initialState\<lparr>step := VIDEO, generatedImage := Some (js ''data:image/png;base64,AAAA''),
           videoPrompt := js ''a slow zoom'', isKeySelected := True,
           hostCalls := [HasSelectedApiKey]\<rparr>)
        \<lparr>aistudioOf = Some \<lparr>hasSelectedApiKey = Returns True, openSelectKey = Returns ()\<rparr>,
         typeErrorMessage = []\<rparr>)
     = [HasSelectedApiKey, HasSelectedApiKey] \<and>
   prefix [HasSelectedApiKey, HasSelectedApiKey]
     (hostCalls
        (handleGenerateVideo
           (initialState\<lparr>step := VIDEO, generatedImage := Some (js ''data:image/png;base64,AAAA''),
              videoPrompt := js ''a slow zoom'', isKeySelected := True,
              hostCalls := [HasSelectedApiKey]\<rparr>)
           \<lparr>aistudioOf = Some \<lparr>hasSelectedApiKey = Returns True, openSelectKey = Returns ()\<rparr>,
            typeErrorMessage = []\<rparr>
           1 3 (Some (js ''k''))
           \<lparr>keyUnsetMessage = js ''An API Key must be set when running in a browser'',
            generateVideos = Throws (NonError None), getVideosOperation = [], fetch = Throws (NonError None)\<rparr>))"
proof -
  let ?s = "initialState\<lparr>step := VIDEO, generatedImage := Some (js ''data:image/png;base64,AAAA''),
           videoPrompt := js ''a slow zoom'', isKeySelected := True,
           hostCalls := [HasSelectedApiKey]\<rparr>"
  let ?host = "\<lparr>hasSelectedApiKey = Returns True, openSelectKey = Returns ()\<rparr>"
  let ?w = "\<lparr>aistudioOf = Some ?host, typeErrorMessage = []\<rparr>"
  let ?svc = "\<lparr>keyUnsetMessage = js ''An API Key must be set when running in a browser'',
               generateVideos = Throws (NonError None), getVideosOperation = [], fetch = Throws (NonError None)\<rparr>"
  have h: "aistudioOf ?w = Some ?host" "truthy (generatedImage ?s)" "videoPrompt ?s \<noteq> []"
    "isKeySelected ?s" "hostCalls ?s = [HasSelectedApiKey]"
    by (simp_all add: initialState_def js_def)
  from credential_queries[of ?w ?host ?s 1 3 "Some (js ''k'')" ?svc] h
  show ?thesis by simp
qed

text \<open>
  Against claim C9 as stated: entering the video step finds the key selected; the video
  generation that follows queries the host again; and a reset after the gate has become
  true leaves \<open>isKeySelected\<close> true.
\<close>

theorem credential_requeried:
  "isKeySelected
     (enterVideoStep
        (initialState\<lparr>step := EDIT, generatedImage := Some (js ''data:image/png;base64,AAAA''),
           videoPrompt := js ''a slow zoom''\<rparr>)
        \<lparr>aistudioOf = Some \<lparr>hasSelectedApiKey = Returns True, openSelectKey = Returns ()\<rparr>,
         typeErrorMessage = []\<rparr>) \<and>
   hostCalls
     (enterVideoStep
        (initialState\<lparr>step := EDIT, generatedImage := Some (js ''data:image/png;base64,AAAA''),
           videoPrompt := js ''a slow zoom''\<rparr>)
        \<lparr>aistudioOf = Some \<lparr>hasSelectedApiKey = Returns True, openSelectKey = Returns ()\<rparr>,
         typeErrorMessage = []\<rparr>)
     = [HasSelectedApiKey] \<and>
   hostCalls
     (handleGenerateVideo
        (enterVideoStep
           (initialState\<lparr>step := EDIT, generatedImage := Some (js ''data:image/png;base64,AAAA''),
              videoPrompt := js ''a slow zoom''\<rparr>)
           \<lparr>aistudioOf = Some \<lparr>hasSelectedApiKey = Returns True, openSelectKey = Returns ()\<rparr>,
            typeErrorMessage = []\<rparr>)
        \<lparr>aistudioOf = Some \<lparr>hasSelectedApiKey = Returns True, openSelectKey = Returns ()\<rparr>,
         typeErrorMessage = []\<rparr>
        1 0 (Some (js ''k''))
        \<lparr>keyUnsetMessage = js ''An API Key must be set when running in a browser'',
         generateVideos = Returns \<lparr>isDone = True, videoUri = Some (js ''https://v/1?alt=media'')\<rparr>,
         getVideosOperation = [],
         fetch = Returns \<lparr>ok = True, statusText = js ''OK'', bodyUrl = Returns (js ''blob:1'')\<rparr>\<rparr>)
     = [HasSelectedApiKey, HasSelectedApiKey] \<and>
   isKeySelected
     (handleReset
        (enterVideoStep
           (initialState\<lparr>step := EDIT, generatedImage := Some (js ''data:image/png;base64,AAAA''),
              videoPrompt := js ''a slow zoom''\<rparr>)
           \<lparr>aistudioOf = Some \<lparr>hasSelectedApiKey = Returns True, openSelectKey = Returns ()\<rparr>,
            typeErrorMessage = []\<rparr>))"
  by (simp add: eval_app eval_video)

end
